theory Spec2Isabelle
  imports Complex_Main "HOL-Library.Multiset"
begin

section \<open>Strings of the host language\<close>

text \<open>
  A JavaScript string is a sequence of UTF-16 code units, and \<open>length\<close> counts code
  units.  A code unit is modelled as a natural number, a string as a list of them.
  \<open>str\<close> writes a string from an ASCII or Latin-1 literal.
\<close>

type_synonym jsstring = "nat list"

definition str :: "string \<Rightarrow> jsstring" where
  "str s = map of_char s"

text \<open>
  \<open>String.prototype.trim\<close> removes WhiteSpace and LineTerminator code points from both
  ends (ECMAScript: TAB, VT, FF, SP, NBSP, ZWNBSP, the Zs category, LF, CR, LS, PS).
\<close>

definition isWhiteSpace :: "nat \<Rightarrow> bool" where
  "isWhiteSpace c =
     (c = 9 \<or> c = 10 \<or> c = 11 \<or> c = 12 \<or> c = 13 \<or> c = 32 \<or> c = 160 \<or> c = 5760
      \<or> (8192 \<le> c \<and> c \<le> 8202) \<or> c = 8232 \<or> c = 8233 \<or> c = 8239 \<or> c = 8287
      \<or> c = 12288 \<or> c = 65279)"

definition trim :: "jsstring \<Rightarrow> jsstring" where
  "trim s = rev (dropWhile isWhiteSpace (rev (dropWhile isWhiteSpace s)))"

text \<open>
  \<open>String.prototype.toLowerCase\<close> is a builtin driven by the Unicode case tables.  The
  functions below take it as the parameter \<open>lc\<close>, so that what is proved of them holds
  of the real builtin.  \<open>toLowerCase\<close> is the builtin on Basic Latin, the Latin-1
  Supplement and U+0130 (whose lower case is the two code units U+0069 U+0307); it
  instantiates \<open>lc\<close> at concrete inputs written with these code units.
\<close>

definition lowerUnit :: "nat \<Rightarrow> nat list" where
  "lowerUnit c =
     (if 65 \<le> c \<and> c \<le> 90 then [c + 32]
      else if 192 \<le> c \<and> c \<le> 222 \<and> c \<noteq> 215 then [c + 32]
      else if c = 304 then [105, 775]
      else [c])"

definition toLowerCase :: "jsstring \<Rightarrow> jsstring" where
  "toLowerCase s = concat (map lowerUnit s)"

text \<open>\<open>target.startsWith(s)\<close> and \<open>target.includes(s)\<close> (here \<open>includesStr\<close>).\<close>

fun startsWith :: "jsstring \<Rightarrow> jsstring \<Rightarrow> bool" where
  "startsWith target [] = True"
| "startsWith [] (c # s) = False"
| "startsWith (d # target) (c # s) = (d = c \<and> startsWith target s)"

fun includesStr :: "jsstring \<Rightarrow> jsstring \<Rightarrow> bool" where
  "includesStr [] s = startsWith [] s"
| "includesStr (d # target) s = (startsWith (d # target) s \<or> includesStr target s)"

section \<open>Numbers of the host language\<close>

text \<open>
  A JavaScript number is an IEEE 754 double, and every arithmetic operation returns the
  double nearest to the exact result, ties going to the even significand.  The finite
  doubles are modelled as the reals they denote; \<open>double x\<close> is the double nearest to
  \<open>x\<close>: with \<open>e\<close> the binary exponent of \<open>x\<close> (at least \<open>-1022\<close>, below which
  doubles are subnormal), \<open>x\<close> is rounded to a multiple of \<open>2 ^ (e - 52)\<close>.  No result
  here comes near the overflow threshold \<open>2 ^ 1024\<close>; an integer below \<open>2 ^ 53\<close>, as
  the length of a string is, is a double.  The operation \<open>a - b\<close> of the code is
  \<open>double (a - b)\<close>, and likewise for \<open>+\<close> and \<open>/\<close>; a literal such as \<open>0.3\<close> is
  \<open>double (3 / 10)\<close>.
\<close>

fun bitLength :: "nat \<Rightarrow> nat" where
  "bitLength n = (if n = 0 then 0 else Suc (bitLength (n div 2)))"

declare bitLength.simps [simp del]

definition pow2 :: "int \<Rightarrow> real" where
  "pow2 k = (if 0 \<le> k then 2 ^ nat k else 1 / 2 ^ nat (- k))"

text \<open>
  The binary exponent of a positive real: a first guess from the bit lengths of the
  integer parts of \<open>x\<close> and \<open>1 / x\<close>, corrected by comparison.
\<close>

definition exponentOf :: "real \<Rightarrow> int" where
  "exponentOf x =
     (let k = int (bitLength (nat \<lfloor>x\<rfloor>)) - int (bitLength (nat \<lfloor>1 / x\<rfloor>))
      in if pow2 (k + 1) \<le> x then k + 1 else if pow2 k \<le> x then k else k - 1)"

definition roundHalfEven :: "real \<Rightarrow> int" where
  "roundHalfEven q =
     (let f = \<lfloor>q\<rfloor>; r = q - of_int f
      in if r < 1 / 2 then f else if 1 / 2 < r then f + 1 else if even f then f else f + 1)"

definition double :: "real \<Rightarrow> real" where
  "double x =
     (if x = 0 then 0
      else let e = max (exponentOf \<bar>x\<bar>) (- 1022); u = pow2 (e - 52)
           in sgn x * (of_int (roundHalfEven (\<bar>x\<bar> / u)) * u))"

text \<open>
  \<open>xs.slice(0, end)\<close> for an integral \<open>end\<close>: a negative \<open>end\<close> counts from the end of
  the array.
\<close>

definition slice0 :: "'a list \<Rightarrow> int \<Rightarrow> 'a list" where
  "slice0 xs e =
     (let len = int (length xs);
          final = (if e < 0 then max (len + e) 0 else min e len)
      in take (nat final) xs)"

section \<open>Sorting\<close>

text \<open>
  \<open>Array.prototype.sort(comparefn)\<close> is a builtin.  ECMAScript fixes the order of
  its result only for a comparator that is consistent on the elements of the array:
  \<open>consistentOn\<close> writes out the conditions of the standard (every element compares
  equal to itself, comparing equal is symmetric and transitive, comparing less is
  transitive and so is comparing greater).  On any other comparator the order is left to
  the implementation.  The functions below take the builtin as the parameter \<open>sortFn\<close>;
  \<open>sortContract\<close> is what is known of it: the result holds the elements of the array,
  each as often as the array does (an implementation sorts by moving elements, whatever
  the comparator answers), and for a consistent comparator no element compares greater
  than a later one.
\<close>

definition consistentOn :: "'a set \<Rightarrow> ('a \<Rightarrow> 'a \<Rightarrow> real) \<Rightarrow> bool" where
  "consistentOn S cmp \<longleftrightarrow>
     (\<forall>a\<in>S. cmp a a = 0)
     \<and> (\<forall>a\<in>S. \<forall>b\<in>S. cmp a b = 0 \<longrightarrow> cmp b a = 0)
     \<and> (\<forall>a\<in>S. \<forall>b\<in>S. \<forall>c\<in>S. cmp a b = 0 \<longrightarrow> cmp b c = 0 \<longrightarrow> cmp a c = 0)
     \<and> (\<forall>a\<in>S. \<forall>b\<in>S. \<forall>c\<in>S. cmp a b < 0 \<longrightarrow> cmp b c < 0 \<longrightarrow> cmp a c < 0)
     \<and> (\<forall>a\<in>S. \<forall>b\<in>S. \<forall>c\<in>S. cmp a b > 0 \<longrightarrow> cmp b c > 0 \<longrightarrow> cmp a c > 0)"

definition sortContract :: "(('a \<Rightarrow> 'a \<Rightarrow> real) \<Rightarrow> 'a list \<Rightarrow> 'a list) \<Rightarrow> bool" where
  "sortContract sortFn \<longleftrightarrow>
     (\<forall>cmp xs. mset (sortFn cmp xs) = mset xs)
     \<and> (\<forall>cmp xs. consistentOn (set xs) cmp
           \<longrightarrow> sorted_wrt (\<lambda>a b. cmp a b \<le> 0) (sortFn cmp xs))"

text \<open>
  A consistent comparator is a total preorder: any two elements are comparable by
  \<open>cmp a b \<le> 0\<close>, and that relation is transitive.
\<close>

definition totalPreorderOn :: "'a set \<Rightarrow> ('a \<Rightarrow> 'a \<Rightarrow> real) \<Rightarrow> bool" where
  "totalPreorderOn S cmp \<longleftrightarrow>
     (\<forall>a\<in>S. \<forall>b\<in>S. cmp a b \<le> 0 \<or> cmp b a \<le> 0)
     \<and> (\<forall>a\<in>S. \<forall>b\<in>S. \<forall>c\<in>S. cmp a b \<le> 0 \<longrightarrow> cmp b c \<le> 0 \<longrightarrow> cmp a c \<le> 0)"

text \<open>
  One function that meets the contract, a stable insertion sort: an element goes in
  front of the first element it does not compare greater than.  It instantiates
  \<open>sortFn\<close> at concrete inputs on which the comparator is consistent and compares no
  two different entries equal, where every implementation returns the same array.
\<close>

fun insertSorted :: "('a \<Rightarrow> 'a \<Rightarrow> real) \<Rightarrow> 'a \<Rightarrow> 'a list \<Rightarrow> 'a list" where
  "insertSorted cmp x [] = [x]"
| "insertSorted cmp x (y # ys) =
     (if cmp x y \<le> 0 then x # y # ys else y # insertSorted cmp x ys)"

fun arraySort :: "('a \<Rightarrow> 'a \<Rightarrow> real) \<Rightarrow> 'a list \<Rightarrow> 'a list" where
  "arraySort cmp [] = []"
| "arraySort cmp (x # xs) = insertSorted cmp x (arraySort cmp xs)"

section \<open>FuzzyMatcher\<close>

text \<open>
  Scores are doubles.  \<open>maxResults\<close> is an integral number, \<open>distance\<close> a count.
\<close>

record FuzzyMatchResult =
  item :: jsstring
  score :: real
  distance :: nat

text \<open>
  \<open>levenshteinDistance\<close> fills a matrix with one row per code unit of \<open>str2\<close> and one
  column per code unit of \<open>str1\<close>.  \<open>firstRow\<close> is row 0, \<open>fillRow\<close> is the inner loop
  (with the previous row and the cell to the left), \<open>lastRow\<close> the outer loop.
\<close>

fun firstRow :: "jsstring \<Rightarrow> nat \<Rightarrow> nat list" where
  "firstRow [] j = [j]"
| "firstRow (a # str1) j = j # firstRow str1 (j + 1)"

fun fillRow :: "nat \<Rightarrow> jsstring \<Rightarrow> nat list \<Rightarrow> nat \<Rightarrow> nat list" where
  "fillRow c (a # str1) (diag # up # rest) left =
     (let cell = (if c = a then diag else min (diag + 1) (min (left + 1) (up + 1)))
      in cell # fillRow c str1 (up # rest) cell)"
| "fillRow c str1 rest left = []"

fun lastRow :: "jsstring \<Rightarrow> jsstring \<Rightarrow> nat \<Rightarrow> nat list \<Rightarrow> nat list" where
  "lastRow str1 [] i row = row"
| "lastRow str1 (c # str2) i row =
     lastRow str1 str2 (i + 1) ((i + 1) # fillRow c str1 row (i + 1))"

definition levenshteinDistance :: "jsstring \<Rightarrow> jsstring \<Rightarrow> nat" where
  "levenshteinDistance str1 str2 = last (lastRow str1 str2 0 (firstRow str1 0))"

text \<open>
  The recurrence the matrix implements, on the reversed prefixes of the two strings:
  \<open>editRecurrence\<close> is one cell, \<open>rowFrom\<close> one row from a column onwards.
\<close>

fun editRecurrence :: "nat list \<Rightarrow> nat list \<Rightarrow> nat" where
  "editRecurrence [] ys = length ys"
| "editRecurrence xs [] = length xs"
| "editRecurrence (x # xs) (y # ys) =
     (if x = y then editRecurrence xs ys
      else min (editRecurrence xs ys + 1)
             (min (editRecurrence (x # xs) ys + 1) (editRecurrence xs (y # ys) + 1)))"

fun rowFrom :: "nat list \<Rightarrow> nat list \<Rightarrow> nat list \<Rightarrow> nat list" where
  "rowFrom p rp [] = [editRecurrence p rp]"
| "rowFrom p rp (a # suf) = editRecurrence p rp # rowFrom p (a # rp) suf"

definition calculateScore :: "(jsstring \<Rightarrow> jsstring) \<Rightarrow> jsstring \<Rightarrow> jsstring \<Rightarrow> real" where
  "calculateScore lc input target =
     (let distance = levenshteinDistance (lc input) (lc target);
          maxLength = max (length input) (length target)
      in if maxLength = 0 then 1 else double (1 - double (real distance / real maxLength)))"

definition containsMatch :: "(jsstring \<Rightarrow> jsstring) \<Rightarrow> jsstring \<Rightarrow> jsstring \<Rightarrow> bool" where
  "containsMatch lc input target = includesStr (lc target) (lc input)"

definition startsWithMatch :: "(jsstring \<Rightarrow> jsstring) \<Rightarrow> jsstring \<Rightarrow> jsstring \<Rightarrow> bool" where
  "startsWithMatch lc input target = startsWith (lc target) (lc input)"

text \<open>The boosted score \<open>finalScore\<close> of one candidate, as the loop of \<open>findMatches\<close> computes it.\<close>

definition finalScore :: "(jsstring \<Rightarrow> jsstring) \<Rightarrow> jsstring \<Rightarrow> jsstring \<Rightarrow> real" where
  "finalScore lc normalizedInput candidate =
     (let score = calculateScore lc normalizedInput candidate
      in if startsWithMatch lc normalizedInput candidate
         then min 1 (double (score + double (3 / 10)))
         else if containsMatch lc normalizedInput candidate
         then min 1 (double (score + double (2 / 10)))
         else score)"

fun collectResults ::
  "(jsstring \<Rightarrow> jsstring) \<Rightarrow> jsstring \<Rightarrow> jsstring list \<Rightarrow> real \<Rightarrow> FuzzyMatchResult list" where
  "collectResults lc normalizedInput [] minScore = []"
| "collectResults lc normalizedInput (candidate # candidates) minScore =
     (if finalScore lc normalizedInput candidate \<ge> minScore
      then \<lparr>item = candidate, score = finalScore lc normalizedInput candidate,
            distance = levenshteinDistance normalizedInput (lc candidate)\<rparr>
           # collectResults lc normalizedInput candidates minScore
      else collectResults lc normalizedInput candidates minScore)"

text \<open>The test \<open>Math.abs(a.score - b.score) < 0.01\<close> of the comparator.\<close>

definition nearTie :: "FuzzyMatchResult \<Rightarrow> FuzzyMatchResult \<Rightarrow> bool" where
  "nearTie a b = (\<bar>double (score a - score b)\<bar> < double (1 / 100))"

definition compareResults :: "FuzzyMatchResult \<Rightarrow> FuzzyMatchResult \<Rightarrow> real" where
  "compareResults a b =
     (if nearTie a b then real (distance a) - real (distance b)
      else double (score b - score a))"

definition defaultResult :: "jsstring \<Rightarrow> FuzzyMatchResult" where
  "defaultResult c = \<lparr>item = c, score = 1 / 2, distance = 0\<rparr>"

type_synonym resultSort =
  "(FuzzyMatchResult \<Rightarrow> FuzzyMatchResult \<Rightarrow> real) \<Rightarrow> FuzzyMatchResult list \<Rightarrow> FuzzyMatchResult list"

definition findMatches ::
  "resultSort \<Rightarrow> (jsstring \<Rightarrow> jsstring) \<Rightarrow> jsstring \<Rightarrow> jsstring list \<Rightarrow> int \<Rightarrow> real
     \<Rightarrow> FuzzyMatchResult list" where
  "findMatches sortFn lc input candidates maxResults minScore =
     (if trim input = [] then map defaultResult (slice0 candidates maxResults)
      else slice0 (sortFn compareResults
                     (collectResults lc (lc (trim input)) candidates minScore)) maxResults)"

section \<open>Command definitions and the pattern parser\<close>

text \<open>
  Parameter values are untyped JavaScript values.  A number is a double; the finite ones
  are modelled as reals.  An object value is an opaque reference.
\<close>

datatype number = Finite real | NaN | PosInfinity | NegInfinity

datatype jsvalue =
  JUndefined | JNull | JBool bool | JNumber number | JString jsstring | JObject nat

type_synonym object = "jsstring \<rightharpoonup> jsvalue"

text \<open>
  The catalogs and their regular expressions are data registered at start-up.  A
  \<open>RegExp\<close> is modelled by what \<open>text.match(pattern)\<close> returns: the match array, or
  \<open>None\<close> for \<open>null\<close> (a pattern without the sticky flag, whose matches do not
  depend on earlier ones).  An extractor is a pure function of the match array; the
  value \<open>JUndefined\<close> is its way of opting out.
\<close>

type_synonym RegExpMatchArray = "jsstring list"

type_synonym RegExp = "jsstring \<Rightarrow> RegExpMatchArray option"

record CommandDefinition =
  command :: jsstring
  patterns :: "RegExp list"
  description :: jsstring
  requiredParameters :: "jsstring list"
  optionalParameters :: "jsstring list"
  examples :: "jsstring list"
  parameterExtractors :: "(jsstring \<times> (RegExpMatchArray \<Rightarrow> jsvalue)) list"

record ParseResult =
  command :: jsstring
  parameters :: object
  confidence :: real
  originalText :: jsstring

fun extractParameters ::
  "(jsstring \<times> (RegExpMatchArray \<Rightarrow> jsvalue)) list \<Rightarrow> RegExpMatchArray \<Rightarrow> object \<Rightarrow> object" where
  "extractParameters [] m params = params"
| "extractParameters ((paramName, extractor) # extractors) m params =
     (let v = extractor m
      in extractParameters extractors m
           (if v \<noteq> JUndefined then params(paramName \<mapsto> v) else params))"

definition matched ::
  "CommandDefinition \<Rightarrow> RegExp \<Rightarrow> RegExpMatchArray \<Rightarrow> jsstring \<Rightarrow> jsstring \<Rightarrow> ParseResult" where
  "matched defn pattern m original text =
     (let originalMatch = pattern original
      in \<lparr>ParseResult.command = CommandDefinition.command defn,
          parameters = extractParameters (parameterExtractors defn)
                         (case originalMatch of Some om \<Rightarrow> om | None \<Rightarrow> m) Map.empty,
          confidence = double (9 / 10),
          originalText = text\<rparr>)"

fun tryPatterns ::
  "CommandDefinition \<Rightarrow> RegExp list \<Rightarrow> jsstring \<Rightarrow> jsstring \<Rightarrow> jsstring \<Rightarrow> ParseResult option" where
  "tryPatterns defn [] normalizedText original text = None"
| "tryPatterns defn (pattern # ps) normalizedText original text =
     (case pattern normalizedText of
        Some m \<Rightarrow> Some (matched defn pattern m original text)
      | None \<Rightarrow> tryPatterns defn ps normalizedText original text)"

fun tryDefinitions ::
  "CommandDefinition list \<Rightarrow> jsstring \<Rightarrow> jsstring \<Rightarrow> jsstring \<Rightarrow> ParseResult option" where
  "tryDefinitions [] normalizedText original text = None"
| "tryDefinitions (defn # ds) normalizedText original text =
     (case tryPatterns defn (patterns defn) normalizedText original text of
        Some r \<Rightarrow> Some r
      | None \<Rightarrow> tryDefinitions ds normalizedText original text)"

text \<open>A handler (a \<open>BaseCommandDefinition\<close>) is its list of definitions.\<close>

definition parseCommand ::
  "(jsstring \<Rightarrow> jsstring) \<Rightarrow> CommandDefinition list \<Rightarrow> jsstring \<Rightarrow> ParseResult option" where
  "parseCommand lc definitions text =
     (let normalizedText = lc (trim text);
          original = trim text
      in tryDefinitions definitions normalizedText original text)"

section \<open>CommandRegistry\<close>

datatype errorType = command_not_found | parameter_missing | validation_failed

record EnhancedError =
  message :: jsstring
  suggestions :: "jsstring list"
  errorType :: errorType
  originalInput :: jsstring

text \<open>\<open>[...new Set(xs)]\<close>: the elements of \<open>xs\<close> in order of first occurrence.\<close>

fun addAll :: "'a list \<Rightarrow> 'a list \<Rightarrow> 'a list" where
  "addAll seen [] = seen"
| "addAll seen (x # xs) = addAll (if x \<in> set seen then seen else seen @ [x]) xs"

definition newSet :: "'a list \<Rightarrow> 'a list" where
  "newSet xs = addAll [] xs"

fun joinLines :: "jsstring list \<Rightarrow> jsstring" where
  "joinLines [] = []"
| "joinLines [s] = s"
| "joinLines (s # t # ss) = s @ [10] @ joinLines (t # ss)"

definition allCommands :: "CommandDefinition list list \<Rightarrow> jsstring list" where
  "allCommands commandHandlers = map CommandDefinition.command (concat commandHandlers)"

definition allExamples :: "CommandDefinition list list \<Rightarrow> jsstring list" where
  "allExamples commandHandlers = concat (map examples (concat commandHandlers))"

definition couldNotUnderstand :: "jsstring \<Rightarrow> jsstring" where
  "couldNotUnderstand text = str ''Could not understand the instruction: '' @ [34] @ text @ [34]"

definition didYouMean :: "jsstring list \<Rightarrow> jsstring" where
  "didYouMean suggs =
     [10, 10] @ str ''Did you mean one of these?'' @ [10]
     @ joinLines (map (\<lambda>s. [8226, 32] @ s) suggs)"

definition tryUsingHelp :: jsstring where
  "tryUsingHelp =
     [10, 10] @ str ''Try using '' @ [34] @ str ''help'' @ [34]
     @ str '' to see available commands or '' @ [34] @ str ''help <category>'' @ [34]
     @ str '' for specific command groups.''"

definition generateEnhancedError ::
  "resultSort \<Rightarrow> (jsstring \<Rightarrow> jsstring) \<Rightarrow> CommandDefinition list list \<Rightarrow> jsstring
     \<Rightarrow> EnhancedError" where
  "generateEnhancedError sortFn lc commandHandlers text =
     (let commandSuggestions =
            map item (findMatches sortFn lc text (allCommands commandHandlers) 3 (double (3 / 10)));
          exampleSuggestions =
            map item (findMatches sortFn lc text (allExamples commandHandlers) 3 (double (2 / 10)));
          suggs = slice0 (newSet (commandSuggestions @ exampleSuggestions)) 5
      in \<lparr>message = couldNotUnderstand text
                     @ (if length suggs > 0 then didYouMean suggs else tryUsingHelp),
          suggestions = suggs,
          errorType = command_not_found,
          originalInput = text\<rparr>)"

fun tryHandlers ::
  "(jsstring \<Rightarrow> jsstring) \<Rightarrow> CommandDefinition list list \<Rightarrow> jsstring \<Rightarrow> ParseResult option" where
  "tryHandlers lc [] text = None"
| "tryHandlers lc (handler # handlers) text =
     (case parseCommand lc handler text of
        Some r \<Rightarrow> Some r
      | None \<Rightarrow> tryHandlers lc handlers text)"

text \<open>The thrown error carries the enhanced error; it is the \<open>Inl\<close> result.\<close>

definition parseInstruction ::
  "resultSort \<Rightarrow> (jsstring \<Rightarrow> jsstring) \<Rightarrow> CommandDefinition list list \<Rightarrow> jsstring
     \<Rightarrow> EnhancedError + ParseResult" where
  "parseInstruction sortFn lc commandHandlers text =
     (case tryHandlers lc commandHandlers text of
        Some r \<Rightarrow> Inr r
      | None \<Rightarrow> Inl (generateEnhancedError sortFn lc commandHandlers text))"

subsection \<open>First match, as a search\<close>

text \<open>
  The order the specification gives to parsing: every pattern of every definition of
  every catalog, catalogs in registration order, definitions and patterns in declaration
  order; \<open>firstMatching\<close> is the first pair whose pattern matches the text.
\<close>

definition patternsInOrder :: "CommandDefinition list list \<Rightarrow> (CommandDefinition \<times> RegExp) list" where
  "patternsInOrder commandHandlers =
     concat (map (\<lambda>d. map (Pair d) (patterns d)) (concat commandHandlers))"

definition matchesText :: "jsstring \<Rightarrow> RegExp \<Rightarrow> bool" where
  "matchesText t pattern = (pattern t \<noteq> None)"

definition firstMatching ::
  "CommandDefinition list list \<Rightarrow> jsstring \<Rightarrow> (CommandDefinition \<times> RegExp) option" where
  "firstMatching commandHandlers lower =
     find (\<lambda>dp. matchesText lower (snd dp)) (patternsInOrder commandHandlers)"

subsection \<open>A small registry\<close>

text \<open>
  The catalogs of the repository are data outside the functions modelled here.  The
  examples below use two catalogs of one definition each, whose patterns match one
  literal text.
\<close>

definition literalPattern :: "jsstring \<Rightarrow> RegExp" where
  "literalPattern p t = (if t = p then Some [t] else None)"

definition tapDefinition :: CommandDefinition where
  "tapDefinition =
     \<lparr>CommandDefinition.command = str ''tap'',
      patterns = [literalPattern (str ''tap''), literalPattern (str ''press'')],
      description = str ''Tap the screen'',
      requiredParameters = [], optionalParameters = [],
      examples = [str ''tap'', str ''press''],
      parameterExtractors = []\<rparr>"

definition swipeDefinition :: CommandDefinition where
  "swipeDefinition =
     \<lparr>CommandDefinition.command = str ''swipe'',
      patterns = [literalPattern (str ''swipe'')],
      description = str ''Swipe the screen'',
      requiredParameters = [], optionalParameters = [],
      examples = [str ''swipe'', str ''swipe up''],
      parameterExtractors = []\<rparr>"

definition sampleHandlers :: "CommandDefinition list list" where
  "sampleHandlers = [[tapDefinition], [swipeDefinition]]"

section \<open>ParserToOrchestrator\<close>

datatype CommandType =
      CREATE_SIMULATOR_SESSION | TERMINATE_SIMULATOR_SESSION
  | LIST_AVAILABLE_SIMULATORS | LIST_BOOTED_SIMULATORS | BOOT_SIMULATOR
  | SHUTDOWN_SIMULATOR | INSTALL_APP | LAUNCH_APP | TERMINATE_APP | UNINSTALL_APP
  | LIST_APPS | TAP | SWIPE | PRESS_DEVICE_BUTTON | INPUT_TEXT | PRESS_KEY
  | PRESS_KEY_SEQUENCE | DESCRIBE_ELEMENTS | DESCRIBE_POINT | TAKE_SCREENSHOT
  | CAPTURE_SCREEN | RECORD_VIDEO | STOP_RECORDING | GET_SYSTEM_LOGS | GET_APP_LOGS
  | GET_LOGS | START_DEBUG | STOP_DEBUG | DEBUG_STATUS | LIST_CRASH_LOGS
  | SHOW_CRASH_LOG | DELETE_CRASH_LOGS | INSTALL_DYLIB | OPEN_URL | CLEAR_KEYCHAIN
  | SET_LOCATION | ADD_MEDIA | APPROVE_PERMISSIONS | UPDATE_CONTACTS | FOCUS_SIMULATOR
  | IS_SIMULATOR_BOOTED | IS_APP_INSTALLED | SEQUENCE | CONDITIONAL

definition commandMappings :: "(jsstring \<times> CommandType) list" where
  "commandMappings =
     [(str ''crear sesi'' @ [243] @ str ''n'', CREATE_SIMULATOR_SESSION),
      (str ''crear simulador'', CREATE_SIMULATOR_SESSION),
      (str ''iniciar simulador'', CREATE_SIMULATOR_SESSION),
      (str ''terminar sesi'' @ [243] @ str ''n'', TERMINATE_SIMULATOR_SESSION),
      (str ''cerrar simulador'', TERMINATE_SIMULATOR_SESSION),
      (str ''listar simuladores'', LIST_AVAILABLE_SIMULATORS),
      (str ''mostrar simuladores'', LIST_AVAILABLE_SIMULATORS),
      (str ''listar simuladores arrancados'', LIST_BOOTED_SIMULATORS),
      (str ''arrancar simulador'', BOOT_SIMULATOR),
      (str ''apagar simulador'', SHUTDOWN_SIMULATOR),
      (str ''create session'', CREATE_SIMULATOR_SESSION),
      (str ''start simulator'', CREATE_SIMULATOR_SESSION),
      (str ''launch simulator'', CREATE_SIMULATOR_SESSION),
      (str ''end session'', TERMINATE_SIMULATOR_SESSION),
      (str ''terminate session'', TERMINATE_SIMULATOR_SESSION),
      (str ''close simulator'', TERMINATE_SIMULATOR_SESSION),
      (str ''list simulators'', LIST_AVAILABLE_SIMULATORS),
      (str ''show simulators'', LIST_AVAILABLE_SIMULATORS),
      (str ''list booted simulators'', LIST_BOOTED_SIMULATORS),
      (str ''show running simulators'', LIST_BOOTED_SIMULATORS),
      (str ''boot simulator'', BOOT_SIMULATOR),
      (str ''shutdown simulator'', SHUTDOWN_SIMULATOR),
      (str ''instalar app'', INSTALL_APP),
      (str ''instalar aplicaci'' @ [243] @ str ''n'', INSTALL_APP),
      (str ''lanzar app'', LAUNCH_APP),
      (str ''abrir app'', LAUNCH_APP),
      (str ''iniciar app'', LAUNCH_APP),
      (str ''cerrar app'', TERMINATE_APP),
      (str ''terminar app'', TERMINATE_APP),
      (str ''desinstalar app'', UNINSTALL_APP),
      (str ''eliminar app'', UNINSTALL_APP),
      (str ''borrar app'', UNINSTALL_APP),
      (str ''listar apps'', LIST_APPS),
      (str ''mostrar apps'', LIST_APPS),
      (str ''install app'', INSTALL_APP),
      (str ''launch app'', LAUNCH_APP),
      (str ''terminate app'', TERMINATE_APP),
      (str ''uninstall app'', UNINSTALL_APP),
      (str ''remove app'', UNINSTALL_APP),
      (str ''delete app'', UNINSTALL_APP),
      (str ''list apps'', LIST_APPS),
      (str ''show apps'', LIST_APPS),
      (str ''tocar'', TAP),
      (str ''pulsar'', TAP),
      (str ''deslizar'', SWIPE),
      (str ''tap'', TAP),
      (str ''swipe'', SWIPE),
      (str ''press device button'', PRESS_DEVICE_BUTTON),
      (str ''input text'', INPUT_TEXT),
      (str ''press key'', PRESS_KEY),
      (str ''press key sequence'', PRESS_KEY_SEQUENCE),
      (str ''describir elementos'', DESCRIBE_ELEMENTS),
      (str ''describir todos los elementos'', DESCRIBE_ELEMENTS),
      (str ''describir punto'', DESCRIBE_POINT),
      (str ''describe elements'', DESCRIBE_ELEMENTS),
      (str ''describe all elements'', DESCRIBE_ELEMENTS),
      (str ''describe point'', DESCRIBE_POINT),
      (str ''capturar pantalla'', CAPTURE_SCREEN),
      (str ''captura'', CAPTURE_SCREEN),
      (str ''logs del sistema'', GET_SYSTEM_LOGS),
      (str ''logs de app'', GET_APP_LOGS),
      (str ''grabar video'', RECORD_VIDEO),
      (str ''detener grabaci'' @ [243] @ str ''n'', STOP_RECORDING),
      (str ''take screenshot'', CAPTURE_SCREEN),
      (str ''capture screen'', CAPTURE_SCREEN),
      (str ''screenshot'', CAPTURE_SCREEN),
      (str ''logs'', GET_LOGS),
      (str ''get logs'', GET_LOGS),
      (str ''record video'', RECORD_VIDEO),
      (str ''stop recording'', STOP_RECORDING),
      (str ''iniciar debug'', START_DEBUG),
      (str ''parar debug'', STOP_DEBUG),
      (str ''estado debug'', DEBUG_STATUS),
      (str ''listar crash logs'', LIST_CRASH_LOGS),
      (str ''mostrar crash log'', SHOW_CRASH_LOG),
      (str ''eliminar crash logs'', DELETE_CRASH_LOGS),
      (str ''start debug'', START_DEBUG),
      (str ''stop debug'', STOP_DEBUG),
      (str ''debug status'', DEBUG_STATUS),
      (str ''list crash logs'', LIST_CRASH_LOGS),
      (str ''show crash log'', SHOW_CRASH_LOG),
      (str ''delete crash logs'', DELETE_CRASH_LOGS),
      (str ''instalar dylib'', INSTALL_DYLIB),
      (str ''abrir url'', OPEN_URL),
      (str ''limpiar keychain'', CLEAR_KEYCHAIN),
      (str ''establecer ubicaci'' @ [243] @ str ''n'', SET_LOCATION),
      (str ''a'' @ [241] @ str ''adir media'', ADD_MEDIA),
      (str ''aprobar permisos'', APPROVE_PERMISSIONS),
      (str ''actualizar contactos'', UPDATE_CONTACTS),
      (str ''enfocar simulador'', FOCUS_SIMULATOR),
      (str ''install dylib'', INSTALL_DYLIB),
      (str ''open url'', OPEN_URL),
      (str ''clear keychain'', CLEAR_KEYCHAIN),
      (str ''set location'', SET_LOCATION),
      (str ''add media'', ADD_MEDIA),
      (str ''approve permissions'', APPROVE_PERMISSIONS),
      (str ''update contacts'', UPDATE_CONTACTS),
      (str ''focus simulator'', FOCUS_SIMULATOR),
      (str ''verificar simulador'', IS_SIMULATOR_BOOTED),
      (str ''comprobar simulador'', IS_SIMULATOR_BOOTED),
      (str ''verificar app'', IS_APP_INSTALLED),
      (str ''comprobar app'', IS_APP_INSTALLED)]"

text \<open>
  \<open>commandMappings\<close> is a plain object, so \<open>this.commandMappings[k]\<close> reads an own
  property or, failing that, a property inherited from \<open>Object.prototype\<close>, whose
  members (functions, and the prototype itself for \<open>__proto__\<close>) are all truthy.
\<close>

datatype property = OwnProperty CommandType | InheritedProperty jsstring

definition objectPrototypeKeys :: "jsstring list" where
  "objectPrototypeKeys =
     [str ''constructor'', str ''__defineGetter__'', str ''__defineSetter__'',
      str ''hasOwnProperty'', str ''__lookupGetter__'', str ''__lookupSetter__'',
      str ''isPrototypeOf'', str ''propertyIsEnumerable'', str ''toString'',
      str ''valueOf'', str ''__proto__'', str ''toLocaleString'']"

definition getProperty :: "(jsstring \<times> CommandType) list \<Rightarrow> jsstring \<Rightarrow> property option" where
  "getProperty obj k =
     (case map_of obj k of
        Some v \<Rightarrow> Some (OwnProperty v)
      | None \<Rightarrow> if k \<in> set objectPrototypeKeys then Some (InheritedProperty k) else None)"

text \<open>The loop over \<open>Object.entries(this.commandMappings)\<close>, in insertion order.\<close>

fun partialMatch :: "(jsstring \<times> CommandType) list \<Rightarrow> jsstring \<Rightarrow> CommandType option" where
  "partialMatch [] lowerCommand = None"
| "partialMatch ((k, v) # entries) lowerCommand =
     (if includesStr lowerCommand k then Some v else partialMatch entries lowerCommand)"

text \<open>A plain \<open>Error\<close>: it has a message and nothing else.\<close>

datatype JSError = Error jsstring

definition couldNotMap :: "jsstring \<Rightarrow> jsstring" where
  "couldNotMap naturalCommand =
     str ''Could not map command '' @ [34] @ naturalCommand @ [34] @ str '' to a CommandType''"

definition mapToCommandType :: "(jsstring \<Rightarrow> jsstring) \<Rightarrow> jsstring \<Rightarrow> JSError + property" where
  "mapToCommandType lc naturalCommand =
     (let lowerCommand = lc naturalCommand
      in case getProperty commandMappings lowerCommand of
           Some v \<Rightarrow> Inr v
         | None \<Rightarrow>
             (case partialMatch commandMappings lowerCommand of
                Some v \<Rightarrow> Inr (OwnProperty v)
              | None \<Rightarrow> Inl (Error (couldNotMap naturalCommand))))"

subsection \<open>Parameter conversion\<close>

text \<open>
  Objects live in a heap, addressed by their index.  \<open>{ ...parserParameters }\<close>
  allocates a fresh object with the own properties of the source; the assignments that
  follow write to the fresh object.  The builtin \<open>Number\<close> is the parameter
  \<open>toNumber\<close>.
\<close>

type_synonym heap = "object list"

definition spreadCopy :: "heap \<Rightarrow> nat \<Rightarrow> nat \<times> heap" where
  "spreadCopy h src = (length h, h @ [if src < length h then h ! src else Map.empty])"

definition numberProperty :: "(jsvalue \<Rightarrow> number) \<Rightarrow> jsstring \<Rightarrow> object \<Rightarrow> object" where
  "numberProperty toNumber name obj =
     (case obj name of
        None \<Rightarrow> obj
      | Some v \<Rightarrow> if v \<noteq> JUndefined then obj(name \<mapsto> JNumber (toNumber v)) else obj)"

definition booleanProperty :: "(jsstring \<Rightarrow> jsstring) \<Rightarrow> jsstring \<Rightarrow> object \<Rightarrow> object" where
  "booleanProperty lc name obj =
     (case obj name of
        Some (JString s) \<Rightarrow> obj(name \<mapsto> JBool (lc s = str ''true''))
      | _ \<Rightarrow> obj)"

definition assign :: "nat \<Rightarrow> (object \<Rightarrow> object) \<Rightarrow> heap \<Rightarrow> heap" where
  "assign p f h = (if p < length h then h[p := f (h ! p)] else h)"

definition convertParameters ::
  "(jsvalue \<Rightarrow> number) \<Rightarrow> (jsstring \<Rightarrow> jsstring) \<Rightarrow> CommandType \<Rightarrow> nat \<Rightarrow> heap \<Rightarrow> nat \<times> heap" where
  "convertParameters toNumber lc commandType parserParameters h =
     (let (params, h0) = spreadCopy h parserParameters
      in (params,
          if commandType = TAP then
            assign params (numberProperty toNumber (str ''y''))
              (assign params (numberProperty toNumber (str ''x'')) h0)
          else if commandType = SWIPE then
            assign params (numberProperty toNumber (str ''duration''))
              (assign params (numberProperty toNumber (str ''endY''))
                (assign params (numberProperty toNumber (str ''endX''))
                  (assign params (numberProperty toNumber (str ''startY''))
                    (assign params (numberProperty toNumber (str ''startX'')) h0))))
          else if commandType = CREATE_SIMULATOR_SESSION then
            assign params (booleanProperty lc (str ''autoboot'')) h0
          else h0))"

text \<open>
  The names \<open>convertParameters\<close> assigns to for a command type, and the effect of
  its assignments on the content of the copy: the number assignments in sequence, or the
  one boolean assignment.
\<close>

definition coercedNames :: "CommandType \<Rightarrow> jsstring list" where
  "coercedNames commandType =
     (if commandType = TAP then [str ''x'', str ''y'']
      else if commandType = SWIPE then
        [str ''startX'', str ''startY'', str ''endX'', str ''endY'', str ''duration'']
      else if commandType = CREATE_SIMULATOR_SESSION then [str ''autoboot'']
      else [])"

definition coerce :: "(jsvalue \<Rightarrow> number) \<Rightarrow> (jsstring \<Rightarrow> jsstring) \<Rightarrow> CommandType \<Rightarrow> object \<Rightarrow> object" where
  "coerce toNumber lc commandType obj =
     (if commandType = CREATE_SIMULATOR_SESSION then booleanProperty lc (str ''autoboot'') obj
      else fold (numberProperty toNumber) (coercedNames commandType) obj)"

text \<open>The object at the reference that \<open>convertParameters\<close> returns.\<close>

definition returned :: "nat \<times> heap \<Rightarrow> object" where
  "returned r = snd r ! fst r"

text \<open>
  \<open>Number\<close> on the two strings of the examples; it instantiates \<open>toNumber\<close> there.
\<close>

definition sampleNumber :: "jsvalue \<Rightarrow> number" where
  "sampleNumber v =
     (if v = JString (str ''10'') then Finite 10
      else if v = JString (str ''20'') then Finite 20
      else NaN)"

section \<open>Rounding to a double\<close>

text \<open>
  \<open>exponentOf\<close> is the binary exponent: a positive \<open>x\<close> lies between \<open>2 ^ e\<close> and
  \<open>2 ^ (e + 1)\<close>.  Rounding commutes with negation, never crosses 0 or 1, and moves
  a number by at most half a unit in the last place.  On a closed rational, \<open>double\<close>
  is evaluated by the rules \<open>double_eval\<close>.
\<close>

lemma bitLength_0: "bitLength 0 = 0"
  by (simp add: bitLength.simps)

lemma bitLength_bounds: "0 < n \<Longrightarrow> 2 ^ (bitLength n - 1) \<le> n \<and> n < 2 ^ bitLength n"
proof (induction n rule: bitLength.induct)
  case (1 n)
  show ?case
  proof (cases "n div 2 = 0")
    case True
    with "1.prems" have "n = 1" by (simp add: div_eq_0_iff) 
    then show ?thesis by (simp add: bitLength.simps)
  next
    case False
    with "1.IH" "1.prems" have ih: "2 ^ (bitLength (n div 2) - 1) \<le> n div 2"
      "n div 2 < 2 ^ bitLength (n div 2)" by simp_all
    from False have pos: "0 < bitLength (n div 2)" by (simp add: bitLength.simps [of "n div 2"])
    have b: "bitLength n = Suc (bitLength (n div 2))"
      using "1.prems" by (simp add: bitLength.simps [of n])
    from pos have "(2::nat) ^ bitLength (n div 2) = 2 * 2 ^ (bitLength (n div 2) - 1)"
      by (cases "bitLength (n div 2)") simp_all
    with ih(1) have lo: "2 ^ bitLength (n div 2) \<le> n" by linarith
    from ih(2) have hi: "n < 2 * 2 ^ bitLength (n div 2)" by linarith
    from lo hi b show ?thesis by simp
  qed
qed

lemma pow2_pos: "0 < pow2 k"
  by (simp add: pow2_def)

lemma pow2_Suc: "pow2 (k + 1) = 2 * pow2 k"
proof (cases "0 \<le> k")
  case True
  then show ?thesis by (simp add: pow2_def nat_add_distrib)
next
  case False
  then have "nat (- k) = Suc (nat (- (k + 1)))" by linarith
  with False show ?thesis by (simp add: pow2_def)
qed

lemma pow2_of_nat: "pow2 (int n) = 2 ^ n"
  by (simp add: pow2_def)

lemma pow2_neg_nat: "pow2 (- int n) = 1 / 2 ^ n"
  by (cases "n = 0") (simp_all add: pow2_def)

lemma exponentOf_bounds:
  assumes "0 < x"
  shows "pow2 (exponentOf x) \<le> x \<and> x < pow2 (exponentOf x + 1)"
proof (cases "1 \<le> x")
  case True
  define n where "n = nat \<lfloor>x\<rfloor>"
  from True have fl: "1 \<le> \<lfloor>x\<rfloor>" by simp
  then have "0 \<le> \<lfloor>x\<rfloor>" by linarith
  then have rn: "real n = of_int \<lfloor>x\<rfloor>" unfolding n_def by (rule of_nat_nat)
  from fl have n: "0 < n" "real n \<le> x" "x < real n + 1"
    unfolding rn by (simp_all add: n_def)
  from bitLength_bounds [OF n(1)]
  have b: "2 ^ (bitLength n - 1) \<le> n" "n < 2 ^ bitLength n" by simp_all
  from b(2) n(1) have bpos: "0 < bitLength n" by (cases "bitLength n") simp_all
  from b(2) have "n + 1 \<le> 2 ^ bitLength n" by simp
  then have "real (n + 1) \<le> real (2 ^ bitLength n)" by (rule of_nat_mono)
  then have "real n + 1 \<le> 2 ^ bitLength n"
    by (simp only: of_nat_add of_nat_1 of_nat_power of_nat_numeral)
  with n(3) have hi: "x < 2 ^ bitLength n" by linarith
  from b(1) have "real (2 ^ (bitLength n - 1)) \<le> real n" by (rule of_nat_mono)
  then have "(2::real) ^ (bitLength n - 1) \<le> real n"
    by (simp only: of_nat_power of_nat_numeral)
  with n(2) have lo: "2 ^ (bitLength n - 1) \<le> x" by linarith
  show ?thesis
  proof (cases "x = 1")
    case True
    then show ?thesis
      by (simp add: exponentOf_def pow2_def bitLength.simps)
  next
    case False
    with \<open>1 \<le> x\<close> have "1 < x" by simp
    then have "1 / x < 1" "0 \<le> 1 / x" by simp_all
    then have "\<lfloor>1 / x\<rfloor> = 0" by (simp add: floor_eq_iff)
    then have k: "int (bitLength (nat \<lfloor>x\<rfloor>)) - int (bitLength (nat \<lfloor>1 / x\<rfloor>)) = int (bitLength n)"
      by (simp add: n_def bitLength_0)
    have p: "pow2 (int (bitLength n)) = 2 ^ bitLength n" by (rule pow2_of_nat)
    have p1: "pow2 (int (bitLength n) + 1) = 2 * 2 ^ bitLength n"
      by (simp add: pow2_Suc p)
    have p0: "pow2 (int (bitLength n) - 1) = 2 ^ (bitLength n - 1)"
      using bpos pow2_of_nat [of "bitLength n - 1"] by (simp add: of_nat_diff)
    have "(0::real) < 2 ^ bitLength n" by simp
    with hi have "\<not> 2 * 2 ^ bitLength n \<le> x" "\<not> 2 ^ bitLength n \<le> x" by linarith+
    then have "exponentOf x = int (bitLength n) - 1"
      unfolding exponentOf_def k Let_def p p1 by simp
    with lo hi p p0 show ?thesis by simp
  qed
next
  case False
  with assms have x: "0 < x" "x < 1" by simp_all
  define m where "m = nat \<lfloor>1 / x\<rfloor>"
  from x have inv: "1 < 1 / x" by simp
  then have fl: "1 \<le> \<lfloor>1 / x\<rfloor>" by simp
  then have "0 \<le> \<lfloor>1 / x\<rfloor>" by linarith
  then have rm: "real m = of_int \<lfloor>1 / x\<rfloor>" unfolding m_def by (rule of_nat_nat)
  from fl have m: "0 < m" "real m \<le> 1 / x" "1 / x < real m + 1"
    unfolding rm by (simp_all add: m_def)
  from bitLength_bounds [OF m(1)]
  have b: "2 ^ (bitLength m - 1) \<le> m" "m < 2 ^ bitLength m" by simp_all
  from b(2) m(1) have bpos: "0 < bitLength m" by (cases "bitLength m") simp_all
  from b(2) have "m + 1 \<le> 2 ^ bitLength m" by simp
  then have "real (m + 1) \<le> real (2 ^ bitLength m)" by (rule of_nat_mono)
  then have "real m + 1 \<le> 2 ^ bitLength m"
    by (simp only: of_nat_add of_nat_1 of_nat_power of_nat_numeral)
  with m(3) have hi: "1 / x < 2 ^ bitLength m" by linarith
  from b(1) have "real (2 ^ (bitLength m - 1)) \<le> real m" by (rule of_nat_mono)
  then have "(2::real) ^ (bitLength m - 1) \<le> real m"
    by (simp only: of_nat_power of_nat_numeral)
  with m(2) have lo: "2 ^ (bitLength m - 1) \<le> 1 / x" by linarith
  from x have "\<lfloor>x\<rfloor> = 0" by (simp add: floor_eq_iff)
  then have k: "int (bitLength (nat \<lfloor>x\<rfloor>)) - int (bitLength (nat \<lfloor>1 / x\<rfloor>)) = - int (bitLength m)"
    by (simp add: m_def bitLength_0)
  have p: "pow2 (- int (bitLength m)) = 1 / 2 ^ bitLength m" by (rule pow2_neg_nat)
  have p1: "pow2 (- int (bitLength m) + 1) = 1 / 2 ^ (bitLength m - 1)"
    using bpos pow2_neg_nat [of "bitLength m - 1"] by (simp add: of_nat_diff)
  have p2: "pow2 (- int (bitLength m) + 1 + 1) = 2 * pow2 (- int (bitLength m) + 1)"
    by (rule pow2_Suc)
  from hi x have gt: "1 / 2 ^ bitLength m < x"
    by (simp add: field_simps)
  from lo x have le: "x \<le> 1 / 2 ^ (bitLength m - 1)"
    by (simp add: field_simps)
  show ?thesis
  proof (cases "pow2 (- int (bitLength m) + 1) \<le> x")
    case True
    then have "exponentOf x = - int (bitLength m) + 1"
      unfolding exponentOf_def k Let_def by simp
    moreover from le p1 have "x < 2 * pow2 (- int (bitLength m) + 1)"
      using pow2_pos [of "- int (bitLength m) + 1"] by linarith
    ultimately show ?thesis using True p2 by simp
  next
    case False
    with gt p have "exponentOf x = - int (bitLength m)"
      unfolding exponentOf_def k Let_def by simp
    with False gt p show ?thesis by simp
  qed
qed

lemma roundHalfEven_ge: "of_int n \<le> q \<Longrightarrow> n \<le> roundHalfEven q"
proof -
  assume "of_int n \<le> q"
  then have "n \<le> \<lfloor>q\<rfloor>" by (simp add: le_floor_iff)
  then show ?thesis by (simp add: roundHalfEven_def Let_def)
qed

lemma roundHalfEven_le: "q \<le> of_int n \<Longrightarrow> roundHalfEven q \<le> n"
proof -
  assume q: "q \<le> of_int n"
  then have f: "\<lfloor>q\<rfloor> \<le> n" by (simp add: floor_le_iff)
  show ?thesis
  proof (cases "q - of_int \<lfloor>q\<rfloor> < 1 / 2")
    case True
    with f show ?thesis by (simp add: roundHalfEven_def Let_def)
  next
    case False
    then have "of_int \<lfloor>q\<rfloor> < q" by linarith
    with q have "of_int \<lfloor>q\<rfloor> < (of_int n :: real)" by linarith
    then have "\<lfloor>q\<rfloor> < n" by simp
    then have "\<lfloor>q\<rfloor> + 1 \<le> n" by simp
    with f show ?thesis by (simp add: roundHalfEven_def Let_def)
  qed
qed

lemma roundHalfEven_half: "q \<le> 1 / 2 \<Longrightarrow> roundHalfEven q \<le> 0"
proof (cases "q < 0")
  case True
  then have "q \<le> of_int 0" by simp
  then show ?thesis by (rule roundHalfEven_le)
next
  case False
  assume "q \<le> 1 / 2"
  with False have "\<lfloor>q\<rfloor> = 0" by (simp add: floor_eq_iff)
  with \<open>q \<le> 1 / 2\<close> show ?thesis by (simp add: roundHalfEven_def Let_def)
qed

lemma roundHalfEven_near: "\<bar>of_int (roundHalfEven q) - q\<bar> \<le> 1 / 2"
proof -
  have "of_int \<lfloor>q\<rfloor> \<le> q" "q < of_int \<lfloor>q\<rfloor> + 1" by linarith+
  then show ?thesis by (auto simp: roundHalfEven_def Let_def)
qed

lemma double_zero: "double 0 = 0"
  by (simp add: double_def)

lemma double_minus: "double (- x) = - double x"
  by (simp add: double_def Let_def)

lemma double_nonneg: "0 \<le> x \<Longrightarrow> 0 \<le> double x"
proof (cases "x = 0")
  case True
  then show ?thesis by (simp add: double_zero)
next
  case False
  assume "0 \<le> x"
  with False have x: "0 < x" by simp
  define u where "u = pow2 (max (exponentOf \<bar>x\<bar>) (- 1022) - 52)"
  have u: "0 < u" unfolding u_def by (rule pow2_pos)
  with x have "of_int 0 \<le> \<bar>x\<bar> / u" by simp
  then have "0 \<le> roundHalfEven (\<bar>x\<bar> / u)" by (rule roundHalfEven_ge)
  then have "(0::real) \<le> of_int (roundHalfEven (\<bar>x\<bar> / u))" by simp
  with u have "0 \<le> of_int (roundHalfEven (\<bar>x\<bar> / u)) * u" by simp
  moreover have "double x = of_int (roundHalfEven (\<bar>x\<bar> / u)) * u"
    using x by (simp add: double_def Let_def u_def)
  ultimately show ?thesis by simp
qed

lemma double_nonpos: "x \<le> 0 \<Longrightarrow> double x \<le> 0"
  using double_nonneg [of "- x"] by (simp add: double_minus)

lemma double_le_one: "x \<le> 1 \<Longrightarrow> double x \<le> 1"
proof (cases "0 < x")
  case False
  then have "double x \<le> 0" by (simp add: double_nonpos)
  then show ?thesis by simp
next
  case True
  assume le: "x \<le> 1"
  define k where "k = max (exponentOf \<bar>x\<bar>) (- 1022) - 52"
  define u where "u = pow2 k"
  have u: "0 < u" unfolding u_def by (rule pow2_pos)
  have d: "double x = of_int (roundHalfEven (x / u)) * u"
    using True by (simp add: double_def Let_def u_def k_def)
  show ?thesis
  proof (cases "0 \<le> k")
    case False
    then have "u = 1 / 2 ^ nat (- k)" by (simp add: u_def pow2_def)
    then have iu: "1 / u = of_int (2 ^ nat (- k))" by simp
    from le u have "x / u \<le> 1 / u" by (simp add: divide_right_mono)
    with iu have "x / u \<le> of_int (2 ^ nat (- k))" by simp
    then have "roundHalfEven (x / u) \<le> 2 ^ nat (- k)" by (rule roundHalfEven_le)
    then have "(of_int (roundHalfEven (x / u)) :: real) \<le> of_int (2 ^ nat (- k))"
      by (simp only: of_int_le_iff)
    with iu have "of_int (roundHalfEven (x / u)) \<le> 1 / u" by simp
    with u have "of_int (roundHalfEven (x / u)) * u \<le> 1"
      by (simp add: pos_le_divide_eq)
    with d show ?thesis by simp
  next
    case k: True
    show ?thesis
    proof (cases "k = 0")
      case True
      then have "u = 1" by (simp add: u_def pow2_def)
      moreover from le have "roundHalfEven x \<le> 1"
        using roundHalfEven_le [of x 1] by simp
      ultimately show ?thesis using d by simp
    next
      case False
      with k have "nat k = Suc (nat (k - 1))" by linarith
      then have "u = 2 * 2 ^ nat (k - 1)" using k by (simp add: u_def pow2_def)
      moreover have "(1::real) \<le> 2 ^ nat (k - 1)" by simp
      ultimately have "2 \<le> u" by linarith
      with le True have "x / u \<le> 1 / 2"
        by (simp add: pos_divide_le_eq)
      then have "roundHalfEven (x / u) \<le> 0" by (rule roundHalfEven_half)
      then have "(of_int (roundHalfEven (x / u)) :: real) \<le> 0" by simp
      with u have "of_int (roundHalfEven (x / u)) * u \<le> 0"
        by (simp add: mult_le_0_iff)
      with d show ?thesis by simp
    qed
  qed
qed

lemma double_error:
  "x \<noteq> 0 \<Longrightarrow> \<bar>double x - x\<bar> \<le> pow2 (max (exponentOf \<bar>x\<bar>) (- 1022) - 52) / 2"
proof -
  assume x: "x \<noteq> 0"
  define u where "u = pow2 (max (exponentOf \<bar>x\<bar>) (- 1022) - 52)"
  have u: "0 < u" unfolding u_def by (rule pow2_pos)
  define r where "r = roundHalfEven (\<bar>x\<bar> / u)"
  have n: "\<bar>of_int r - \<bar>x\<bar> / u\<bar> \<le> 1 / 2" unfolding r_def by (rule roundHalfEven_near)
  have "of_int r * u - \<bar>x\<bar> = (of_int r - \<bar>x\<bar> / u) * u" using u by (simp add: field_simps)
  then have "\<bar>of_int r * u - \<bar>x\<bar>\<bar> = \<bar>of_int r - \<bar>x\<bar> / u\<bar> * u"
    using u by (simp add: abs_mult)
  with n u have m: "\<bar>of_int r * u - \<bar>x\<bar>\<bar> \<le> u / 2"
    by (simp add: mult_right_mono)
  have "double x = sgn x * (of_int r * u)"
    using x by (simp add: double_def Let_def u_def r_def)
  moreover have "x = sgn x * \<bar>x\<bar>" by (simp add: sgn_mult_abs)
  ultimately have "double x - x = sgn x * (of_int r * u - \<bar>x\<bar>)"
    by (metis right_diff_distrib)
  then have "\<bar>double x - x\<bar> = \<bar>of_int r * u - \<bar>x\<bar>\<bar>"
    using x by (simp add: abs_mult abs_sgn_eq)
  with m show ?thesis unfolding u_def by simp
qed

lemmas double_eval = double_def exponentOf_def roundHalfEven_def pow2_def bitLength.simps Let_def

lemma double_one: "double 1 = 1"
  by (simp add: double_eval)

lemma double_literals:
  "double (3 / 10) = 5404319552844595 / 18014398509481984"
  "double (2 / 10) = 3602879701896397 / 18014398509481984"
  "double (1 / 5) = 3602879701896397 / 18014398509481984"
  "double (1 / 100) = 5764607523034235 / 576460752303423488"
  by (simp_all add: double_eval)

section \<open>The sort and its contract\<close>

text \<open>
  A consistent comparator is a total preorder; the insertion sort meets the contract.
\<close>

lemma consistentOn_antisym:
  assumes c: "consistentOn S cmp" and m: "p \<in> S" "q \<in> S"
  shows "cmp p q < 0 \<Longrightarrow> 0 < cmp q p" and "0 < cmp p q \<Longrightarrow> cmp q p < 0"
proof -
  from c m have refl: "cmp p p = 0" "cmp q q = 0"
    and sym: "cmp q p = 0 \<longrightarrow> cmp p q = 0"
    and lt: "cmp p q < 0 \<longrightarrow> cmp q p < 0 \<longrightarrow> cmp p p < 0"
    and gt: "cmp p q > 0 \<longrightarrow> cmp q p > 0 \<longrightarrow> cmp p p > 0"
    unfolding consistentOn_def by blast+
  show "0 < cmp q p" if "cmp p q < 0"
  proof (rule ccontr)
    assume "\<not> 0 < cmp q p"
    then have "cmp q p = 0 \<or> cmp q p < 0" by linarith
    with sym lt that refl show False by auto
  qed
  show "cmp q p < 0" if "0 < cmp p q"
  proof (rule ccontr)
    assume "\<not> cmp q p < 0"
    then have "cmp q p = 0 \<or> cmp q p > 0" by linarith
    with sym gt that refl show False by auto
  qed
qed

lemma consistentOn_totalPreorderOn:
  assumes c: "consistentOn S cmp"
  shows "totalPreorderOn S cmp"
  unfolding totalPreorderOn_def
proof (intro conjI ballI impI)
  fix a b assume m: "a \<in> S" "b \<in> S"
  show "cmp a b \<le> 0 \<or> cmp b a \<le> 0"
  proof (rule ccontr)
    assume "\<not> (cmp a b \<le> 0 \<or> cmp b a \<le> 0)"
    then have "0 < cmp a b" "0 < cmp b a" by linarith+
    with consistentOn_antisym(2) [OF c m] show False by linarith
  qed
next
  fix a b c' assume m: "a \<in> S" "b \<in> S" "c' \<in> S" and ab: "cmp a b \<le> 0" and bc: "cmp b c' \<le> 0"
  from c m have eqt: "cmp a b = 0 \<longrightarrow> cmp b c' = 0 \<longrightarrow> cmp a c' = 0"
    and sym: "cmp a b = 0 \<longrightarrow> cmp b a = 0"
    and lt1: "cmp c' a < 0 \<longrightarrow> cmp a b < 0 \<longrightarrow> cmp c' b < 0"
    and lt2: "cmp b c' < 0 \<longrightarrow> cmp c' a < 0 \<longrightarrow> cmp b a < 0"
    unfolding consistentOn_def by blast+
  show "cmp a c' \<le> 0"
  proof (rule ccontr)
    assume "\<not> cmp a c' \<le> 0"
    then have ac: "0 < cmp a c'" by linarith
    then have ca: "cmp c' a < 0" by (rule consistentOn_antisym(2) [OF c m(1) m(3)])
    show False
    proof (cases "cmp a b < 0")
      case True
      with ca lt1 have "cmp c' b < 0" by blast
      then have "0 < cmp b c'" by (rule consistentOn_antisym(1) [OF c m(3) m(2)])
      with bc show False by linarith
    next
      case False
      with ab have e: "cmp a b = 0" by linarith
      show False
      proof (cases "cmp b c' < 0")
        case True
        with ca lt2 have "cmp b a < 0" by blast
        with e sym show False by linarith
      next
        case False
        with bc have "cmp b c' = 0" by linarith
        with e eqt ac show False by linarith
      qed
    qed
  qed
qed

lemma totalPreorderOn_subset: "totalPreorderOn S cmp \<Longrightarrow> T \<subseteq> S \<Longrightarrow> totalPreorderOn T cmp"
  unfolding totalPreorderOn_def by blast

lemma set_insertSorted: "set (insertSorted cmp x ys) = insert x (set ys)"
  by (induction ys) auto

lemma set_arraySort: "set (arraySort cmp xs) = set xs"
  by (induction xs) (auto simp: set_insertSorted)

lemma mset_insertSorted: "mset (insertSorted cmp x ys) = add_mset x (mset ys)"
  by (induction ys) simp_all

lemma mset_arraySort: "mset (arraySort cmp xs) = mset xs"
  by (induction xs) (simp_all add: mset_insertSorted)

lemma sorted_wrt_take: "sorted_wrt P xs \<Longrightarrow> sorted_wrt P (take n xs)"
  by (metis append_take_drop_id sorted_wrt_append)

lemma sorted_insertSorted:
  "totalPreorderOn (insert x (set ys)) cmp \<Longrightarrow> sorted_wrt (\<lambda>a b. cmp a b \<le> 0) ys
     \<Longrightarrow> sorted_wrt (\<lambda>a b. cmp a b \<le> 0) (insertSorted cmp x ys)"
proof (induction ys)
  case Nil
  show ?case by simp
next
  case (Cons y ys)
  from Cons.prems(2) have tail: "sorted_wrt (\<lambda>a b. cmp a b \<le> 0) ys"
    and head: "\<forall>z\<in>set ys. cmp y z \<le> 0"
    by simp_all
  show ?case
  proof (cases "cmp x y \<le> 0")
    case True
    have "\<forall>z\<in>set ys. cmp x z \<le> 0"
    proof
      fix z assume z: "z \<in> set ys"
      with head have "cmp y z \<le> 0" by blast
      moreover have "x \<in> insert x (set (y # ys))" "y \<in> insert x (set (y # ys))"
        "z \<in> insert x (set (y # ys))" using z by simp_all
      ultimately show "cmp x z \<le> 0"
        using True Cons.prems(1) unfolding totalPreorderOn_def by blast
    qed
    with True head tail show ?thesis by simp
  next
    case False
    have "x \<in> insert x (set (y # ys))" "y \<in> insert x (set (y # ys))" by simp_all
    with False have yx: "cmp y x \<le> 0"
      using Cons.prems(1) unfolding totalPreorderOn_def by blast
    have "totalPreorderOn (insert x (set ys)) cmp"
      by (rule totalPreorderOn_subset [OF Cons.prems(1)]) auto
    then have ih: "sorted_wrt (\<lambda>a b. cmp a b \<le> 0) (insertSorted cmp x ys)"
      using tail by (rule Cons.IH)
    have "\<forall>z\<in>set (insertSorted cmp x ys). cmp y z \<le> 0"
      using yx head by (simp add: set_insertSorted)
    with False ih show ?thesis by simp
  qed
qed

lemma sorted_arraySort:
  "totalPreorderOn (set xs) cmp \<Longrightarrow> sorted_wrt (\<lambda>a b. cmp a b \<le> 0) (arraySort cmp xs)"
proof (induction xs)
  case Nil
  show ?case by simp
next
  case (Cons x xs)
  have "totalPreorderOn (set xs) cmp"
    by (rule totalPreorderOn_subset [OF Cons.prems]) auto
  then have ih: "sorted_wrt (\<lambda>a b. cmp a b \<le> 0) (arraySort cmp xs)"
    by (rule Cons.IH)
  have "totalPreorderOn (insert x (set (arraySort cmp xs))) cmp"
    using Cons.prems by (simp add: set_arraySort)
  then have "sorted_wrt (\<lambda>a b. cmp a b \<le> 0) (insertSorted cmp x (arraySort cmp xs))"
    using ih by (rule sorted_insertSorted)
  then show ?case by simp
qed

lemma arraySort_contract: "sortContract arraySort"
  unfolding sortContract_def
  by (intro conjI allI impI mset_arraySort sorted_arraySort consistentOn_totalPreorderOn)

lemma sortContract_mset: "sortContract sortFn \<Longrightarrow> mset (sortFn cmp xs) = mset xs"
  by (simp add: sortContract_def)


lemma sortContract_Nil: "sortContract sortFn \<Longrightarrow> sortFn cmp [] = []"
  using sortContract_mset [of sortFn cmp "[]"] by simp

lemma sortContract_sorted:
  "sortContract sortFn \<Longrightarrow> consistentOn (set xs) cmp
     \<Longrightarrow> sorted_wrt (\<lambda>a b. cmp a b \<le> 0) (sortFn cmp xs)"
  by (simp add: sortContract_def)

section \<open>The matrix and its recurrence\<close>

text \<open>
  The last cell of the matrix is the edit recurrence of the two strings: the distance of
  a string to itself is 0, and no distance exceeds the length of the longer string.
\<close>

lemma editRecurrence_Nil2: "editRecurrence xs [] = length xs"
  by (cases xs) simp_all

lemma rowFrom_unfold: "rowFrom p rp suf = editRecurrence p rp # tl (rowFrom p rp suf)"
  by (cases suf) simp_all

lemma fillRow_rowFrom:
  "fillRow c suf (rowFrom p rp suf) (editRecurrence (c # p) rp) = tl (rowFrom (c # p) rp suf)"
proof (induction suf arbitrary: rp)
  case Nil
  show ?case by simp
next
  case (Cons a suf)
  have up: "rowFrom p (a # rp) suf = editRecurrence p (a # rp) # tl (rowFrom p (a # rp) suf)"
    by (rule rowFrom_unfold)
  have cell: "(if c = a then editRecurrence p rp
               else min (editRecurrence p rp + 1)
                      (min (editRecurrence (c # p) rp + 1) (editRecurrence p (a # rp) + 1)))
              = editRecurrence (c # p) (a # rp)"
    by simp
  have "fillRow c (a # suf) (rowFrom p rp (a # suf)) (editRecurrence (c # p) rp)
          = fillRow c (a # suf) (editRecurrence p rp # editRecurrence p (a # rp) # tl (rowFrom p (a # rp) suf))
              (editRecurrence (c # p) rp)"
    using up by simp
  also have "\<dots> = editRecurrence (c # p) (a # rp)
        # fillRow c suf (editRecurrence p (a # rp) # tl (rowFrom p (a # rp) suf)) (editRecurrence (c # p) (a # rp))"
    unfolding fillRow.simps Let_def cell ..
  also have "\<dots> = editRecurrence (c # p) (a # rp)
        # fillRow c suf (rowFrom p (a # rp) suf) (editRecurrence (c # p) (a # rp))"
    using up by simp
  also have "\<dots> = editRecurrence (c # p) (a # rp) # tl (rowFrom (c # p) (a # rp) suf)"
    by (simp only: Cons.IH)
  also have "\<dots> = rowFrom (c # p) (a # rp) suf"
    by (rule rowFrom_unfold [symmetric])
  finally show ?case by simp
qed

lemma firstRow_rowFrom: "firstRow suf (length rp) = rowFrom [] rp suf"
proof (induction suf arbitrary: rp)
  case Nil
  show ?case by simp
next
  case (Cons a suf)
  from Cons.IH [of "a # rp"] show ?case by simp
qed

lemma lastRow_rowFrom:
  "lastRow str1 str2 (length p) (rowFrom p [] str1) = rowFrom (rev str2 @ p) [] str1"
proof (induction str2 arbitrary: p)
  case Nil
  show ?case by simp
next
  case (Cons c str2)
  have "(length p + 1) # fillRow c str1 (rowFrom p [] str1) (length p + 1) = rowFrom (c # p) [] str1"
    using fillRow_rowFrom [of c str1 p "[]"] rowFrom_unfold [of "c # p" "[]" str1]
    by (simp add: editRecurrence_Nil2)
  with Cons.IH [of "c # p"] show ?case by simp
qed

lemma rowFrom_nonempty: "rowFrom p rp suf \<noteq> []"
  by (cases suf) simp_all

lemma last_rowFrom: "last (rowFrom p rp suf) = editRecurrence p (rev suf @ rp)"
  by (induction suf arbitrary: rp) (simp_all add: rowFrom_nonempty)

lemma levenshteinDistance_recurrence:
  "levenshteinDistance str1 str2 = editRecurrence (rev str2) (rev str1)"
  using lastRow_rowFrom [of str1 str2 "[]"] firstRow_rowFrom [of str1 "[]"]
  by (simp add: levenshteinDistance_def last_rowFrom)

lemma editRecurrence_same: "editRecurrence xs xs = 0"
  by (induction xs) simp_all

lemma editRecurrence_le: "editRecurrence xs ys \<le> max (length xs) (length ys)"
  by (induction xs ys rule: editRecurrence.induct) (auto simp: min_def max_def)

lemma levenshteinDistance_same: "levenshteinDistance s s = 0"
  by (simp add: levenshteinDistance_recurrence editRecurrence_same)

lemma levenshteinDistance_le:
  "levenshteinDistance str1 str2 \<le> max (length str1) (length str2)"
  using editRecurrence_le [of "rev str2" "rev str1"]
  by (simp add: levenshteinDistance_recurrence max.commute)

section \<open>Score bounds\<close>

text \<open>
  Whatever \<open>toLowerCase\<close> does, a score is at most 1, an identical pair scores 1 and so
  does the empty pair; the two boosts are the branches of one conditional, and
  \<open>Math.min(1, _)\<close> caps each.  A score is at least 0 when lower-casing does not make
  the strings longer than the longer of the two.
\<close>

lemma startsWith_refl: "startsWith s s"
  by (induction s) simp_all

lemma calculateScore_le_one: "calculateScore lc input target \<le> 1"
proof (cases "max (length input) (length target) = 0")
  case True
  then show ?thesis by (simp add: calculateScore_def)
next
  case False
  have "0 \<le> real (levenshteinDistance (lc input) (lc target))
              / real (max (length input) (length target))"
    by simp
  then have "0 \<le> double (real (levenshteinDistance (lc input) (lc target))
                       / real (max (length input) (length target)))"
    by (rule double_nonneg)
  then have "double (1 - double (real (levenshteinDistance (lc input) (lc target))
                       / real (max (length input) (length target)))) \<le> 1"
    by (intro double_le_one) simp
  with False show ?thesis
    unfolding calculateScore_def Let_def by simp
qed

lemma finalScore_le_one: "finalScore lc normalizedInput candidate \<le> 1"
  using calculateScore_le_one [of lc normalizedInput candidate]
  by (simp add: finalScore_def Let_def)

lemma calculateScore_empty: "calculateScore lc [] [] = 1"
  by (simp add: calculateScore_def)

lemma calculateScore_identical: "calculateScore lc s s = 1"
  by (simp add: calculateScore_def levenshteinDistance_same double_zero double_one)

lemma boosted_one: "min 1 (double (1 + double (3 / 10))) = 1"
  by (simp add: double_eval)

lemma finalScore_identical: "finalScore lc s s = 1"
  by (simp add: finalScore_def calculateScore_identical startsWithMatch_def startsWith_refl
        boosted_one)

lemma calculateScore_nonneg:
  assumes "length (lc input) \<le> max (length input) (length target)"
    and "length (lc target) \<le> max (length input) (length target)"
  shows "0 \<le> calculateScore lc input target"
proof (cases "max (length input) (length target) = 0")
  case True
  then show ?thesis by (simp add: calculateScore_def)
next
  case False
  have "levenshteinDistance (lc input) (lc target) \<le> max (length (lc input)) (length (lc target))"
    by (rule levenshteinDistance_le)
  also have "\<dots> \<le> max (length input) (length target)"
    using assms by simp
  finally have le: "real (levenshteinDistance (lc input) (lc target))
                  \<le> real (max (length input) (length target))"
    by (rule of_nat_mono)
  from False have "0 < max (length input) (length target)" by (metis gr0I)
  then have pos: "0 < real (max (length input) (length target))"
    by (simp only: of_nat_0_less_iff)
  from le pos have "real (levenshteinDistance (lc input) (lc target))
                      / real (max (length input) (length target)) \<le> 1"
    by (simp only: divide_le_eq_1_pos)
  then have "double (real (levenshteinDistance (lc input) (lc target))
                      / real (max (length input) (length target))) \<le> 1"
    by (rule double_le_one)
  then have "0 \<le> double (1 - double (real (levenshteinDistance (lc input) (lc target))
                      / real (max (length input) (length target))))"
    by (intro double_nonneg) simp
  with False show ?thesis
    unfolding calculateScore_def Let_def by simp
qed

lemma finalScore_nonneg:
  assumes "length (lc input) \<le> max (length input) (length candidate)"
    and "length (lc candidate) \<le> max (length input) (length candidate)"
  shows "0 \<le> finalScore lc input candidate"
proof -
  have s: "0 \<le> calculateScore lc input candidate"
    using assms by (rule calculateScore_nonneg)
  have "0 \<le> double (3 / 10)" "0 \<le> double (2 / 10)"
    by (simp_all add: double_nonneg)
  with s have "0 \<le> double (calculateScore lc input candidate + double (3 / 10))"
    "0 \<le> double (calculateScore lc input candidate + double (2 / 10))"
    by (simp_all add: double_nonneg)
  with s show ?thesis
    by (simp add: finalScore_def Let_def)
qed

text \<open>
  C6, the code at a failing input.  \<open>calculateScore\<close> measures the distance between the
  lower-cased strings and divides by the lengths of the strings as given.  The lower case
  of U+0130 is two code units long: for the input \<open>a\<close> and the one-unit candidate U+0130
  the distance is 2, the maximal length 1, and the score \<open>1 - 2/1 = -1\<close>, outside
  \<open>[0,1]\<close>.
\<close>

theorem finalScore_negative:
  "finalScore toLowerCase (toLowerCase (trim (str ''a''))) [304] = - 1"
proof -
  have n: "toLowerCase (trim (str ''a'')) = [97]" "toLowerCase [97] = [97]"
    "toLowerCase [304] = [105, 775]"
    by (simp_all add: trim_def str_def isWhiteSpace_def toLowerCase_def lowerUnit_def)
  have d: "levenshteinDistance [97] [105, 775] = 2"
    by (simp add: levenshteinDistance_def)
  have m: "\<not> startsWith [105, 775] [97]" "\<not> includesStr [105, 775] [97]"
    by simp_all
  have r: "double 2 = 2" "double (- 1) = - 1"
    by (simp_all add: double_eval)
  show ?thesis
    by (simp add: finalScore_def calculateScore_def startsWithMatch_def containsMatch_def n d m r)
qed

text \<open>
  Scores and thresholds are compared as doubles.  For the input \<open>pxxxx\<close> the candidate
  \<open>press\<close> has distance 4 and length 5; \<open>4 / 5\<close> rounds up, so the score
  \<open>1 - 4 / 5\<close> is 0.19999999999999996, below the threshold 0.2.
\<close>

lemma score_below_threshold:
  "finalScore toLowerCase (str ''pxxxx'') (str ''press'') = 900719925474099 / 4503599627370496"
  "finalScore toLowerCase (str ''pxxxx'') (str ''press'') < double (2 / 10)"
proof -
  have lc: "toLowerCase (str ''pxxxx'') = str ''pxxxx''" "toLowerCase (str ''press'') = str ''press''"
    by (simp_all add: toLowerCase_def lowerUnit_def str_def)
  have d: "levenshteinDistance (str ''pxxxx'') (str ''press'') = 4"
    by (simp add: levenshteinDistance_def str_def)
  have len: "length (str ''pxxxx'') = 5" "length (str ''press'') = 5"
    by (simp_all add: str_def)
  have m: "\<not> startsWith (str ''press'') (str ''pxxxx'')" "\<not> includesStr (str ''press'') (str ''pxxxx'')"
    by (simp_all add: str_def)
  have r: "double (4 / 5) = 3602879701896397 / 4503599627370496"
    "double (900719925474099 / 4503599627370496) = 900719925474099 / 4503599627370496"
    by (simp_all add: double_eval)
  show s: "finalScore toLowerCase (str ''pxxxx'') (str ''press'') = 900719925474099 / 4503599627370496"
    by (simp add: finalScore_def calculateScore_def startsWithMatch_def containsMatch_def lc d len m r)
  show "finalScore toLowerCase (str ''pxxxx'') (str ''press'') < double (2 / 10)"
    unfolding s by (simp add: double_literals)
qed

section \<open>Cap and order of the matches\<close>

text \<open>
  What the comparator gives: of two entries, the one sorted first has the smaller or
  equal distance when the scores are within the tolerance, and the strictly greater
  score otherwise.
\<close>

lemma slice0_nonneg: "0 \<le> e \<Longrightarrow> slice0 xs e = take (nat e) xs"
proof (cases "e \<le> int (length xs)")
  case True
  assume "0 \<le> e"
  with True show ?thesis by (simp add: slice0_def Let_def min_def)
next
  case False
  assume "0 \<le> e"
  with False have "length xs \<le> nat e" by linarith
  with False \<open>0 \<le> e\<close> show ?thesis by (simp add: slice0_def Let_def min_def)
qed


lemma nearTie_sym: "nearTie a b = nearTie b a"
proof -
  have "double (score a - score b) = - double (score b - score a)"
    using double_minus [of "score b - score a"] by simp
  then show ?thesis by (simp add: nearTie_def)
qed

lemma literal_hundredth_pos: "0 < double (1 / 100)"
  by (simp add: double_literals)

lemma compareResults_le:
  assumes "compareResults a b \<le> 0"
  shows "(nearTie a b \<longrightarrow> distance a \<le> distance b) \<and> (\<not> nearTie a b \<longrightarrow> score b < score a)"
proof (cases "nearTie a b")
  case True
  with assms show ?thesis by (simp add: compareResults_def)
next
  case False
  with assms have le: "double (score b - score a) \<le> 0" by (simp add: compareResults_def)
  have "score b < score a"
  proof (rule ccontr)
    assume "\<not> score b < score a"
    then have "0 \<le> score b - score a" by simp
    then have "0 \<le> double (score b - score a)" by (rule double_nonneg)
    with le have z: "double (score b - score a) = 0" by simp
    have "double (score a - score b) = - double (score b - score a)"
      using double_minus [of "score b - score a"] by simp
    with z have "double (score a - score b) = 0" by simp
    with literal_hundredth_pos have "nearTie a b" by (simp add: nearTie_def)
    with False show False by simp
  qed
  with False show ?thesis by simp
qed

lemma length_slice0: "0 \<le> e \<Longrightarrow> int (length (slice0 xs e)) \<le> e"
  by (simp add: slice0_nonneg)

lemma sorted_wrt_slice0: "sorted_wrt P xs \<Longrightarrow> sorted_wrt P (slice0 xs e)"
  by (simp add: slice0_def Let_def sorted_wrt_take)

lemma slice0_all: "int (length xs) \<le> e \<Longrightarrow> slice0 xs e = xs"
  by (simp add: slice0_def Let_def min_def)


lemma near_tie_scores:
  "trim (str ''a'') = str ''a''"
  "toLowerCase (str ''a'') = str ''a''"
  "collectResults toLowerCase (str ''a'') [str ''axxxxxxxxxxxxx'', str ''xaxxxx''] (double (3 / 10))
     = [\<lparr>item = str ''axxxxxxxxxxxxx'', score = 6691062303521879 / 18014398509481984, distance = 13\<rparr>,
        \<lparr>item = str ''xaxxxx'', score = 6605279453476727 / 18014398509481984, distance = 5\<rparr>]"
proof -
  let ?i = "str ''a''" and ?A = "str ''axxxxxxxxxxxxx''" and ?B = "str ''xaxxxx''"
  show "trim ?i = ?i"
    by (simp add: trim_def str_def isWhiteSpace_def)
  show lci: "toLowerCase ?i = ?i"
    by (simp add: toLowerCase_def lowerUnit_def str_def)
  have lc: "toLowerCase ?A = ?A" "toLowerCase ?B = ?B"
    by (simp_all add: toLowerCase_def lowerUnit_def str_def)
  have d: "levenshteinDistance ?i ?A = 13" "levenshteinDistance ?i ?B = 5"
    by (simp_all add: levenshteinDistance_def str_def)
  have len: "length ?i = 1" "length ?A = 14" "length ?B = 6"
    by (simp_all add: str_def)
  have m: "startsWith ?A ?i" "\<not> startsWith ?B ?i" "includesStr ?B ?i"
    by (simp_all add: str_def)
  have r: "double (13 / 14) = 4181913939701175 / 4503599627370496"
    "double (321685687669321 / 4503599627370496) = 321685687669321 / 4503599627370496"
    "double (6691062303521879 / 18014398509481984) = 6691062303521879 / 18014398509481984"
    "double (5 / 6) = 7505999378950827 / 9007199254740992"
    "double (1501199875790165 / 9007199254740992) = 1501199875790165 / 9007199254740992"
    "double (6605279453476727 / 18014398509481984) = 6605279453476727 / 18014398509481984"
    by (simp_all add: double_eval)
  have sA: "finalScore toLowerCase ?i ?A = 6691062303521879 / 18014398509481984"
    by (simp add: finalScore_def calculateScore_def startsWithMatch_def lci lc d len m
          double_literals r)
  have sB: "finalScore toLowerCase ?i ?B = 6605279453476727 / 18014398509481984"
    by (simp add: finalScore_def calculateScore_def startsWithMatch_def containsMatch_def
          lci lc d len m double_literals r)
  show "collectResults toLowerCase ?i [?A, ?B] (double (3 / 10))
     = [\<lparr>item = ?A, score = 6691062303521879 / 18014398509481984, distance = 13\<rparr>,
        \<lparr>item = ?B, score = 6605279453476727 / 18014398509481984, distance = 5\<rparr>]"
    by (simp add: sA sB lc d double_literals)
qed

lemma near_tie_compare:
  "compareResults
     \<lparr>item = str ''axxxxxxxxxxxxx'', score = 6691062303521879 / 18014398509481984, distance = 13\<rparr>
     \<lparr>item = str ''xaxxxx'', score = 6605279453476727 / 18014398509481984, distance = 5\<rparr> = 8"
  "compareResults
     \<lparr>item = str ''xaxxxx'', score = 6605279453476727 / 18014398509481984, distance = 5\<rparr>
     \<lparr>item = str ''axxxxxxxxxxxxx'', score = 6691062303521879 / 18014398509481984, distance = 13\<rparr> = - 8"
  "compareResults
     \<lparr>item = str ''axxxxxxxxxxxxx'', score = 6691062303521879 / 18014398509481984, distance = 13\<rparr>
     \<lparr>item = str ''axxxxxxxxxxxxx'', score = 6691062303521879 / 18014398509481984, distance = 13\<rparr> = 0"
  "compareResults
     \<lparr>item = str ''xaxxxx'', score = 6605279453476727 / 18014398509481984, distance = 5\<rparr>
     \<lparr>item = str ''xaxxxx'', score = 6605279453476727 / 18014398509481984, distance = 5\<rparr> = 0"
  by (simp_all add: compareResults_def nearTie_def double_eval)

text \<open>
  C1, as the claim states it, fails.  The comparator treats scores closer than 0.01 as
  tied and then orders by distance alone, so a lower score with a smaller distance goes
  first.  For the input \<open>a\<close>, the candidate \<open>xaxxxx\<close> (score 0.3666666666666667,
  distance 5) is returned before \<open>axxxxxxxxxxxxx\<close> (score 0.37142857142857144,
  distance 13): the scores increase.
\<close>

theorem findMatches_not_score_ordered_counterexample:
  "findMatches arraySort toLowerCase (str ''a'') [str ''axxxxxxxxxxxxx'', str ''xaxxxx''] 5 (double (3 / 10))
     = [\<lparr>item = str ''xaxxxx'', score = 6605279453476727 / 18014398509481984, distance = 5\<rparr>,
        \<lparr>item = str ''axxxxxxxxxxxxx'', score = 6691062303521879 / 18014398509481984, distance = 13\<rparr>]
   \<and> (6605279453476727 / 18014398509481984 :: real) < 6691062303521879 / 18014398509481984"
proof -
  have nb: "trim (str ''a'') \<noteq> []"
    by (simp add: trim_def str_def isWhiteSpace_def)
  have "findMatches arraySort toLowerCase (str ''a'') [str ''axxxxxxxxxxxxx'', str ''xaxxxx''] 5
          (double (3 / 10))
        = slice0 (arraySort compareResults
            (collectResults toLowerCase (str ''a'') [str ''axxxxxxxxxxxxx'', str ''xaxxxx'']
               (double (3 / 10)))) 5"
    using nb by (simp only: findMatches_def near_tie_scores(1,2) if_False)
  also have "\<dots> = [\<lparr>item = str ''xaxxxx'', score = 6605279453476727 / 18014398509481984, distance = 5\<rparr>,
        \<lparr>item = str ''axxxxxxxxxxxxx'', score = 6691062303521879 / 18014398509481984, distance = 13\<rparr>]"
    unfolding near_tie_scores(3) by (simp add: near_tie_compare slice0_def)
  finally show ?thesis by simp
qed

text \<open>
  The comparator is consistent on these two entries, so the order is the same with every
  sort that meets the contract.
\<close>

lemma mset_pair: "mset ys = mset [a, b] \<Longrightarrow> ys = [a, b] \<or> ys = [b, a]"
proof -
  assume m: "mset ys = mset [a, b]"
  then have "length ys = 2" by (metis length_Cons list.size(3) size_mset numeral_2_eq_2)
  then obtain p q where ys: "ys = [p, q]"
    by (metis length_0_conv length_Suc_conv numeral_2_eq_2)
  with m have "{#p, q#} = {#a, b#}" by simp
  then have "p = a \<and> q = b \<or> p = b \<and> q = a"
    by (auto simp: add_eq_conv_ex)
  with ys show ?thesis by auto
qed

lemma near_tie_consistent:
  "consistentOn
     (set [\<lparr>item = str ''axxxxxxxxxxxxx'', score = 6691062303521879 / 18014398509481984, distance = 13\<rparr>,
           \<lparr>item = str ''xaxxxx'', score = 6605279453476727 / 18014398509481984, distance = 5\<rparr>])
     compareResults"
  by (simp add: consistentOn_def near_tie_compare)

lemma findMatches_near_tie_any_sort:
  assumes "sortContract sortFn"
  shows "findMatches sortFn toLowerCase (str ''a'') [str ''axxxxxxxxxxxxx'', str ''xaxxxx''] 5
           (double (3 / 10))
     = [\<lparr>item = str ''xaxxxx'', score = 6605279453476727 / 18014398509481984, distance = 5\<rparr>,
        \<lparr>item = str ''axxxxxxxxxxxxx'', score = 6691062303521879 / 18014398509481984, distance = 13\<rparr>]"
proof -
  let ?rA = "\<lparr>item = str ''axxxxxxxxxxxxx'', score = 6691062303521879 / 18014398509481984, distance = 13\<rparr>"
  let ?rB = "\<lparr>item = str ''xaxxxx'', score = 6605279453476727 / 18014398509481984, distance = 5\<rparr>"
  have nb: "trim (str ''a'') \<noteq> []"
    by (simp add: trim_def str_def isWhiteSpace_def)
  have fm: "findMatches sortFn toLowerCase (str ''a'') [str ''axxxxxxxxxxxxx'', str ''xaxxxx''] 5
          (double (3 / 10))
        = slice0 (sortFn compareResults [?rA, ?rB]) 5"
    using nb by (simp only: findMatches_def near_tie_scores if_False)
  from assms have "mset (sortFn compareResults [?rA, ?rB]) = mset [?rA, ?rB]"
    by (rule sortContract_mset)
  then have two: "sortFn compareResults [?rA, ?rB] = [?rA, ?rB]
                  \<or> sortFn compareResults [?rA, ?rB] = [?rB, ?rA]"
    by (rule mset_pair)
  from assms near_tie_consistent
  have "sorted_wrt (\<lambda>a b. compareResults a b \<le> 0) (sortFn compareResults [?rA, ?rB])"
    by (rule sortContract_sorted)
  with two have "sortFn compareResults [?rA, ?rB] = [?rB, ?rA]"
    by (auto simp: near_tie_compare)
  then show ?thesis
    unfolding fm by (simp add: slice0_def)
qed

text \<open>
  Scores one unit in the last place apart are within the tolerance too.  For the input
  \<open>tap\<close>, \<open>tap screen\<close> scores \<open>(1 - 7 / 10) + 0.3\<close>, which is 0.6000000000000001, and
  \<open>txaxp\<close> scores \<open>1 - 2 / 5\<close>, which is 0.6; the smaller distance goes first, and the
  scores increase.
\<close>

lemma one_ulp_scores:
  "trim (str ''tap'') = str ''tap''"
  "toLowerCase (str ''tap'') = str ''tap''"
  "collectResults toLowerCase (str ''tap'') [str ''tap screen'', str ''txaxp''] (double (3 / 10))
     = [\<lparr>item = str ''tap screen'', score = 1351079888211149 / 2251799813685248, distance = 7\<rparr>,
        \<lparr>item = str ''txaxp'', score = 5404319552844595 / 9007199254740992, distance = 2\<rparr>]"
proof -
  let ?i = "str ''tap''" and ?A = "str ''tap screen''" and ?B = "str ''txaxp''"
  show "trim ?i = ?i"
    by (simp add: trim_def str_def isWhiteSpace_def)
  show lci: "toLowerCase ?i = ?i"
    by (simp add: toLowerCase_def lowerUnit_def str_def)
  have lc: "toLowerCase ?A = ?A" "toLowerCase ?B = ?B"
    by (simp_all add: toLowerCase_def lowerUnit_def str_def)
  have d: "levenshteinDistance ?i ?A = 7" "levenshteinDistance ?i ?B = 2"
    by (simp_all add: levenshteinDistance_def str_def)
  have len: "length ?i = 3" "length ?A = 10" "length ?B = 5"
    by (simp_all add: str_def)
  have m: "startsWith ?A ?i" "\<not> startsWith ?B ?i" "\<not> includesStr ?B ?i"
    by (simp_all add: str_def)
  have r: "double (7 / 10) = 3152519739159347 / 4503599627370496"
    "double (1351079888211149 / 4503599627370496) = 1351079888211149 / 4503599627370496"
    "double (10808639105689191 / 18014398509481984) = 1351079888211149 / 2251799813685248"
    "double (2 / 5) = 3602879701896397 / 9007199254740992"
    "double (5404319552844595 / 9007199254740992) = 5404319552844595 / 9007199254740992"
    by (simp_all add: double_eval)
  have sA: "finalScore toLowerCase ?i ?A = 1351079888211149 / 2251799813685248"
    by (simp add: finalScore_def calculateScore_def startsWithMatch_def lci lc d len m
          double_literals r)
  have sB: "finalScore toLowerCase ?i ?B = 5404319552844595 / 9007199254740992"
    by (simp add: finalScore_def calculateScore_def startsWithMatch_def containsMatch_def
          lci lc d len m double_literals r)
  show "collectResults toLowerCase ?i [?A, ?B] (double (3 / 10))
     = [\<lparr>item = ?A, score = 1351079888211149 / 2251799813685248, distance = 7\<rparr>,
        \<lparr>item = ?B, score = 5404319552844595 / 9007199254740992, distance = 2\<rparr>]"
    by (simp add: sA sB lc d double_literals)
qed

lemma findMatches_one_ulp:
  "findMatches arraySort toLowerCase (str ''tap'') [str ''tap screen'', str ''txaxp''] 5
     (double (3 / 10))
     = [\<lparr>item = str ''txaxp'', score = 5404319552844595 / 9007199254740992, distance = 2\<rparr>,
        \<lparr>item = str ''tap screen'', score = 1351079888211149 / 2251799813685248, distance = 7\<rparr>]"
  "(5404319552844595 / 9007199254740992 :: real) < 1351079888211149 / 2251799813685248"
proof -
  have nb: "trim (str ''tap'') \<noteq> []"
    by (simp add: trim_def str_def isWhiteSpace_def)
  have c: "compareResults
       \<lparr>item = str ''tap screen'', score = 1351079888211149 / 2251799813685248, distance = 7\<rparr>
       \<lparr>item = str ''txaxp'', score = 5404319552844595 / 9007199254740992, distance = 2\<rparr> = 5"
    by (simp add: compareResults_def nearTie_def double_eval)
  have "findMatches arraySort toLowerCase (str ''tap'') [str ''tap screen'', str ''txaxp''] 5
          (double (3 / 10))
        = slice0 (arraySort compareResults
            (collectResults toLowerCase (str ''tap'') [str ''tap screen'', str ''txaxp'']
               (double (3 / 10)))) 5"
    using nb by (simp only: findMatches_def one_ulp_scores(1,2) if_False)
  also have "\<dots> = [\<lparr>item = str ''txaxp'', score = 5404319552844595 / 9007199254740992, distance = 2\<rparr>,
        \<lparr>item = str ''tap screen'', score = 1351079888211149 / 2251799813685248, distance = 7\<rparr>]"
    unfolding one_ulp_scores(3) by (simp add: c slice0_def)
  finally show "findMatches arraySort toLowerCase (str ''tap'') [str ''tap screen'', str ''txaxp''] 5
     (double (3 / 10))
     = [\<lparr>item = str ''txaxp'', score = 5404319552844595 / 9007199254740992, distance = 2\<rparr>,
        \<lparr>item = str ''tap screen'', score = 1351079888211149 / 2251799813685248, distance = 7\<rparr>]" .
  show "(5404319552844595 / 9007199254740992 :: real) < 1351079888211149 / 2251799813685248"
    by simp
qed

text \<open>
  The tolerance is not transitive, and the comparator can be cyclic.  For the input
  \<open>abcd\<close> the three candidates below score 0.5076923076923077 (distance 9),
  0.5105263157894737 (distance 15) and 0.5 (distance 2): the first goes before the second
  and the third before the first, both by distance, and the second before the third by
  score.  The comparator is not consistent on them, the order of the result is left to
  the implementation of the sort, and no arrangement of the three entries has every entry
  before the later ones.
\<close>

lemma cycle_scores:
  "trim (str ''abcd'') = str ''abcd''"
  "toLowerCase (str ''abcd'') = str ''abcd''"
  "collectResults toLowerCase (str ''abcd'')
     [str ''xxxxxxxxxabcd'', str ''abcdxxxxxxxxxxxxxxx'', str ''ab''] (double (3 / 10))
     = [\<lparr>item = str ''xxxxxxxxxabcd'', score = 285805360967743 / 562949953421312, distance = 9\<rparr>,
        \<lparr>item = str ''abcdxxxxxxxxxxxxxxx'', score = 1149603062776153 / 2251799813685248,
           distance = 15\<rparr>,
        \<lparr>item = str ''ab'', score = 1 / 2, distance = 2\<rparr>]"
proof -
  let ?i = "str ''abcd''" and ?X = "str ''xxxxxxxxxabcd''"
    and ?Y = "str ''abcdxxxxxxxxxxxxxxx''" and ?Z = "str ''ab''"
  show "trim ?i = ?i"
    by (simp add: trim_def str_def isWhiteSpace_def)
  show lci: "toLowerCase ?i = ?i"
    by (simp add: toLowerCase_def lowerUnit_def str_def)
  have lc: "toLowerCase ?X = ?X" "toLowerCase ?Y = ?Y" "toLowerCase ?Z = ?Z"
    by (simp_all add: toLowerCase_def lowerUnit_def str_def)
  have d: "levenshteinDistance ?i ?X = 9" "levenshteinDistance ?i ?Y = 15"
    "levenshteinDistance ?i ?Z = 2"
    by (simp_all add: levenshteinDistance_def str_def)
  have len: "length ?i = 4" "length ?X = 13" "length ?Y = 19" "length ?Z = 2"
    by (simp_all add: str_def)
  have m: "\<not> startsWith ?X ?i" "includesStr ?X ?i" "startsWith ?Y ?i"
    "\<not> startsWith ?Z ?i" "\<not> includesStr ?Z ?i"
    by (simp_all add: str_def)
  have r: "double (9 / 13) = 3117876665102651 / 4503599627370496"
    "double (1385722962267845 / 4503599627370496) = 1385722962267845 / 4503599627370496"
    "double (9145771550967777 / 18014398509481984) = 285805360967743 / 562949953421312"
    "double (15 / 19) = 3555473390029339 / 4503599627370496"
    "double (948126237341157 / 4503599627370496) = 948126237341157 / 4503599627370496"
    "double (9196824502209223 / 18014398509481984) = 1149603062776153 / 2251799813685248"
    "double (1 / 2) = 1 / 2"
    by (simp_all add: double_eval)
  have sX: "finalScore toLowerCase ?i ?X = 285805360967743 / 562949953421312"
    by (simp add: finalScore_def calculateScore_def startsWithMatch_def containsMatch_def
          lci lc d len m double_literals r)
  have sY: "finalScore toLowerCase ?i ?Y = 1149603062776153 / 2251799813685248"
    by (simp add: finalScore_def calculateScore_def startsWithMatch_def lci lc d len m
          double_literals r)
  have sZ: "finalScore toLowerCase ?i ?Z = 1 / 2"
    by (simp add: finalScore_def calculateScore_def startsWithMatch_def containsMatch_def
          lci lc d len m double_literals r)
  show "collectResults toLowerCase ?i [?X, ?Y, ?Z] (double (3 / 10))
     = [\<lparr>item = ?X, score = 285805360967743 / 562949953421312, distance = 9\<rparr>,
        \<lparr>item = ?Y, score = 1149603062776153 / 2251799813685248, distance = 15\<rparr>,
        \<lparr>item = ?Z, score = 1 / 2, distance = 2\<rparr>]"
    by (simp add: sX sY sZ lc d double_literals)
qed

lemma cycle_near_ties:
  "nearTie
     \<lparr>item = str ''xxxxxxxxxabcd'', score = 285805360967743 / 562949953421312, distance = 9\<rparr>
     \<lparr>item = str ''abcdxxxxxxxxxxxxxxx'', score = 1149603062776153 / 2251799813685248,
        distance = 15\<rparr>"
  "nearTie
     \<lparr>item = str ''abcdxxxxxxxxxxxxxxx'', score = 1149603062776153 / 2251799813685248,
        distance = 15\<rparr>
     \<lparr>item = str ''xxxxxxxxxabcd'', score = 285805360967743 / 562949953421312, distance = 9\<rparr>"
  "\<not> nearTie
     \<lparr>item = str ''abcdxxxxxxxxxxxxxxx'', score = 1149603062776153 / 2251799813685248,
        distance = 15\<rparr>
     \<lparr>item = str ''ab'', score = 1 / 2, distance = 2\<rparr>"
  "\<not> nearTie
     \<lparr>item = str ''ab'', score = 1 / 2, distance = 2\<rparr>
     \<lparr>item = str ''abcdxxxxxxxxxxxxxxx'', score = 1149603062776153 / 2251799813685248,
        distance = 15\<rparr>"
  "nearTie
     \<lparr>item = str ''ab'', score = 1 / 2, distance = 2\<rparr>
     \<lparr>item = str ''xxxxxxxxxabcd'', score = 285805360967743 / 562949953421312, distance = 9\<rparr>"
  "nearTie
     \<lparr>item = str ''xxxxxxxxxabcd'', score = 285805360967743 / 562949953421312, distance = 9\<rparr>
     \<lparr>item = str ''ab'', score = 1 / 2, distance = 2\<rparr>"
  by (simp_all add: nearTie_def double_eval)

lemma no_order_for_cycle:
  assumes s: "sorted_wrt R ys"
    and m: "x \<in> set ys" "y \<in> set ys" "z \<in> set ys"
    and n: "\<not> R y x" "\<not> R z y" "\<not> R x z"
    and d: "x \<noteq> y"
  shows False
proof -
  from m obtain i j k where
    i: "i < length ys" "ys ! i = x" and j: "j < length ys" "ys ! j = y"
    and k: "k < length ys" "ys ! k = z"
    unfolding in_set_conv_nth by blast
  from s have o: "\<And>p q. p < q \<Longrightarrow> q < length ys \<Longrightarrow> R (ys ! p) (ys ! q)"
    by (simp add: sorted_wrt_iff_nth_less)
  have "\<not> j < i" using o [of j i] i j n by auto
  moreover have "\<not> k < j" using o [of k j] j k n by auto
  moreover have "\<not> i < k" using o [of i k] i k n by auto
  moreover have "i \<noteq> j" using i j d by auto
  ultimately show False by linarith
qed

lemma findMatches_cycle:
  assumes c: "sortContract sortFn"
  shows "\<not> sorted_wrt (\<lambda>a b. (nearTie a b \<longrightarrow> distance a \<le> distance b)
                             \<and> (\<not> nearTie a b \<longrightarrow> score b < score a))
           (findMatches sortFn toLowerCase (str ''abcd'')
              [str ''xxxxxxxxxabcd'', str ''abcdxxxxxxxxxxxxxxx'', str ''ab''] 5 (double (3 / 10)))"
proof
  let ?X = "\<lparr>item = str ''xxxxxxxxxabcd'', score = 285805360967743 / 562949953421312,
              distance = 9\<rparr>"
  let ?Y = "\<lparr>item = str ''abcdxxxxxxxxxxxxxxx'', score = 1149603062776153 / 2251799813685248,
              distance = 15\<rparr>"
  let ?Z = "\<lparr>item = str ''ab'', score = 1 / 2, distance = 2\<rparr>"
  let ?R = "\<lambda>a b. (nearTie a b \<longrightarrow> distance a \<le> distance b)
                  \<and> (\<not> nearTie a b \<longrightarrow> score b < score a)"
  let ?ys = "sortFn compareResults [?X, ?Y, ?Z]"
  have nb: "trim (str ''abcd'') \<noteq> []"
    by (simp add: trim_def str_def isWhiteSpace_def)
  have fm: "findMatches sortFn toLowerCase (str ''abcd'')
              [str ''xxxxxxxxxabcd'', str ''abcdxxxxxxxxxxxxxxx'', str ''ab''] 5 (double (3 / 10))
            = slice0 ?ys 5"
    using nb by (simp only: findMatches_def cycle_scores if_False)
  from c have ms: "mset ?ys = mset [?X, ?Y, ?Z]" by (rule sortContract_mset)
  then have "size (mset ?ys) = 3" by simp
  then have "length ?ys = 3" by simp
  then have all: "slice0 ?ys 5 = ?ys" by (simp add: slice0_all)
  from ms have "set_mset (mset ?ys) = set_mset (mset [?X, ?Y, ?Z])" by simp
  then have st: "set ?ys = {?X, ?Y, ?Z}" by simp
  assume "sorted_wrt ?R (findMatches sortFn toLowerCase (str ''abcd'')
              [str ''xxxxxxxxxabcd'', str ''abcdxxxxxxxxxxxxxxx'', str ''ab''] 5 (double (3 / 10)))"
  with fm all have s: "sorted_wrt ?R ?ys" by simp
  have m: "?X \<in> set ?ys" "?Y \<in> set ?ys" "?Z \<in> set ?ys"
    unfolding st by simp_all
  have n: "\<not> ?R ?Y ?X" "\<not> ?R ?Z ?Y" "\<not> ?R ?X ?Z"
    by (simp_all add: cycle_near_ties)
  have d: "?X \<noteq> ?Y" by simp
  from s m n d show False by (rule no_order_for_cycle)
qed

lemma cycle_not_consistent:
  "\<not> consistentOn
     (set (collectResults toLowerCase (str ''abcd'')
        [str ''xxxxxxxxxabcd'', str ''abcdxxxxxxxxxxxxxxx'', str ''ab''] (double (3 / 10))))
     compareResults"
proof
  let ?X = "\<lparr>item = str ''xxxxxxxxxabcd'', score = 285805360967743 / 562949953421312,
              distance = 9\<rparr>"
  let ?Y = "\<lparr>item = str ''abcdxxxxxxxxxxxxxxx'', score = 1149603062776153 / 2251799813685248,
              distance = 15\<rparr>"
  let ?Z = "\<lparr>item = str ''ab'', score = 1 / 2, distance = 2\<rparr>"
  assume "consistentOn
     (set (collectResults toLowerCase (str ''abcd'')
        [str ''xxxxxxxxxabcd'', str ''abcdxxxxxxxxxxxxxxx'', str ''ab''] (double (3 / 10))))
     compareResults"
  then have "consistentOn {?X, ?Y, ?Z} compareResults"
    unfolding cycle_scores by simp
  then have "compareResults ?X ?Y < 0 \<longrightarrow> compareResults ?Y ?Z < 0 \<longrightarrow> compareResults ?X ?Z < 0"
    unfolding consistentOn_def by blast
  moreover have "compareResults ?X ?Y = - 6" "compareResults ?X ?Z = 7"
    by (simp_all add: compareResults_def cycle_near_ties)
  moreover have "compareResults ?Y ?Z < 0"
    by (simp add: compareResults_def cycle_near_ties double_eval)
  ultimately show False by simp
qed

text \<open>
  An input with both kinds of pair: for the input \<open>a\<close> the candidate \<open>a\<close> scores 1,
  more than 0.01 above the two candidates of the near tie.
\<close>

lemma exact_match_score:
  "finalScore toLowerCase (str ''a'') (str ''a'') = 1"
  "levenshteinDistance (str ''a'') (toLowerCase (str ''a'')) = 0"
  by (simp_all add: finalScore_identical near_tie_scores(2) levenshteinDistance_same)

lemma three_scores:
  "collectResults toLowerCase (str ''a'') [str ''axxxxxxxxxxxxx'', str ''xaxxxx'', str ''a'']
     (double (3 / 10))
     = [\<lparr>item = str ''axxxxxxxxxxxxx'', score = 6691062303521879 / 18014398509481984, distance = 13\<rparr>,
        \<lparr>item = str ''xaxxxx'', score = 6605279453476727 / 18014398509481984, distance = 5\<rparr>,
        \<lparr>item = str ''a'', score = 1, distance = 0\<rparr>]"
proof -
  have "collectResults toLowerCase (str ''a'') [str ''a''] (double (3 / 10))
          = [\<lparr>item = str ''a'', score = 1, distance = 0\<rparr>]"
    by (simp add: exact_match_score double_literals)
  moreover have "collectResults lc n (xs @ ys) ms
                   = collectResults lc n xs ms @ collectResults lc n ys ms" for lc n xs ys ms
    by (induction xs) simp_all
  from this [of toLowerCase "str ''a''" "[str ''axxxxxxxxxxxxx'', str ''xaxxxx'']" "[str ''a'']"
               "double (3 / 10)"]
  have "collectResults toLowerCase (str ''a'') [str ''axxxxxxxxxxxxx'', str ''xaxxxx'', str ''a'']
          (double (3 / 10))
        = collectResults toLowerCase (str ''a'') [str ''axxxxxxxxxxxxx'', str ''xaxxxx'']
            (double (3 / 10))
          @ collectResults toLowerCase (str ''a'') [str ''a''] (double (3 / 10))"
    by simp
  ultimately show ?thesis
    by (simp only: near_tie_scores(3) append.simps)
qed

lemma three_compare:
  "compareResults
     \<lparr>item = str ''axxxxxxxxxxxxx'', score = 6691062303521879 / 18014398509481984, distance = 13\<rparr>
     \<lparr>item = str ''a'', score = 1, distance = 0\<rparr> = 1415417025745013 / 2251799813685248"
  "compareResults
     \<lparr>item = str ''xaxxxx'', score = 6605279453476727 / 18014398509481984, distance = 5\<rparr>
     \<lparr>item = str ''a'', score = 1, distance = 0\<rparr> = 1426139882000657 / 2251799813685248"
  "compareResults
     \<lparr>item = str ''a'', score = 1, distance = 0\<rparr>
     \<lparr>item = str ''axxxxxxxxxxxxx'', score = 6691062303521879 / 18014398509481984, distance = 13\<rparr>
     = - (1415417025745013 / 2251799813685248)"
  "compareResults
     \<lparr>item = str ''a'', score = 1, distance = 0\<rparr>
     \<lparr>item = str ''xaxxxx'', score = 6605279453476727 / 18014398509481984, distance = 5\<rparr>
     = - (1426139882000657 / 2251799813685248)"
  "compareResults \<lparr>item = str ''a'', score = 1, distance = 0\<rparr>
     \<lparr>item = str ''a'', score = 1, distance = 0\<rparr> = 0"
  by (simp_all add: compareResults_def nearTie_def double_eval)

lemma three_consistent:
  "consistentOn
     (set [\<lparr>item = str ''axxxxxxxxxxxxx'', score = 6691062303521879 / 18014398509481984, distance = 13\<rparr>,
           \<lparr>item = str ''xaxxxx'', score = 6605279453476727 / 18014398509481984, distance = 5\<rparr>,
           \<lparr>item = str ''a'', score = 1, distance = 0\<rparr>])
     compareResults"
  by (simp add: consistentOn_def near_tie_compare three_compare)

lemma three_sorted:
  "arraySort compareResults
     [\<lparr>item = str ''axxxxxxxxxxxxx'', score = 6691062303521879 / 18014398509481984, distance = 13\<rparr>,
      \<lparr>item = str ''xaxxxx'', score = 6605279453476727 / 18014398509481984, distance = 5\<rparr>,
      \<lparr>item = str ''a'', score = 1, distance = 0\<rparr>]
   = [\<lparr>item = str ''a'', score = 1, distance = 0\<rparr>,
      \<lparr>item = str ''xaxxxx'', score = 6605279453476727 / 18014398509481984, distance = 5\<rparr>,
      \<lparr>item = str ''axxxxxxxxxxxxx'', score = 6691062303521879 / 18014398509481984, distance = 13\<rparr>]"
  by (simp add: near_tie_compare three_compare)

lemma three_matches:
  "findMatches arraySort toLowerCase (str ''a'') [str ''axxxxxxxxxxxxx'', str ''xaxxxx'', str ''a'']
     5 (double (3 / 10))
   = [\<lparr>item = str ''a'', score = 1, distance = 0\<rparr>,
      \<lparr>item = str ''xaxxxx'', score = 6605279453476727 / 18014398509481984, distance = 5\<rparr>,
      \<lparr>item = str ''axxxxxxxxxxxxx'', score = 6691062303521879 / 18014398509481984, distance = 13\<rparr>]"
  "findMatches arraySort toLowerCase (str ''a'') [str ''axxxxxxxxxxxxx'', str ''xaxxxx'', str ''a'']
     2 (double (3 / 10))
   = [\<lparr>item = str ''a'', score = 1, distance = 0\<rparr>,
      \<lparr>item = str ''xaxxxx'', score = 6605279453476727 / 18014398509481984, distance = 5\<rparr>]"
proof -
  have nb: "trim (str ''a'') \<noteq> []"
    by (simp add: trim_def str_def isWhiteSpace_def)
  have "findMatches arraySort toLowerCase (str ''a'')
          [str ''axxxxxxxxxxxxx'', str ''xaxxxx'', str ''a''] k (double (3 / 10))
        = slice0 (arraySort compareResults
            (collectResults toLowerCase (str ''a'')
               [str ''axxxxxxxxxxxxx'', str ''xaxxxx'', str ''a''] (double (3 / 10)))) k" for k
    using nb by (simp only: findMatches_def near_tie_scores(1,2) if_False)
  then show
    "findMatches arraySort toLowerCase (str ''a'') [str ''axxxxxxxxxxxxx'', str ''xaxxxx'', str ''a'']
       5 (double (3 / 10))
     = [\<lparr>item = str ''a'', score = 1, distance = 0\<rparr>,
        \<lparr>item = str ''xaxxxx'', score = 6605279453476727 / 18014398509481984, distance = 5\<rparr>,
        \<lparr>item = str ''axxxxxxxxxxxxx'', score = 6691062303521879 / 18014398509481984, distance = 13\<rparr>]"
    "findMatches arraySort toLowerCase (str ''a'') [str ''axxxxxxxxxxxxx'', str ''xaxxxx'', str ''a'']
       2 (double (3 / 10))
     = [\<lparr>item = str ''a'', score = 1, distance = 0\<rparr>,
        \<lparr>item = str ''xaxxxx'', score = 6605279453476727 / 18014398509481984, distance = 5\<rparr>]"
    by (simp_all only: three_scores three_sorted) (simp_all add: slice0_def)
qed

text \<open>
  C1, amended.  For every input, candidate list and threshold: with \<open>maxResults \<ge> 0\<close>,
  \<open>findMatches\<close> returns at most \<open>maxResults\<close> entries; and for a non-blank input on
  whose kept entries the comparator is consistent (the case in which the standard fixes
  the order of the sort), of any two entries returned the earlier has the smaller or equal
  edit distance when the scores differ by less than 0.01 (as the code tests it), and
  the strictly greater score otherwise.
\<close>

theorem findMatches_capped_and_ordered:
  "(0 \<le> maxResults
      \<longrightarrow> int (length (findMatches sortFn lc input candidates maxResults minScore)) \<le> maxResults)
   \<and> (sortContract sortFn \<and> trim input \<noteq> []
        \<and> consistentOn (set (collectResults lc (lc (trim input)) candidates minScore)) compareResults
      \<longrightarrow> sorted_wrt (\<lambda>a b. (nearTie a b \<longrightarrow> distance a \<le> distance b)
                             \<and> (\<not> nearTie a b \<longrightarrow> score b < score a))
            (findMatches sortFn lc input candidates maxResults minScore))"
proof (intro conjI impI)
  assume "0 \<le> maxResults"
  then show "int (length (findMatches sortFn lc input candidates maxResults minScore)) \<le> maxResults"
    by (simp add: findMatches_def length_slice0)
next
  let ?rs = "collectResults lc (lc (trim input)) candidates minScore"
  assume h: "sortContract sortFn \<and> trim input \<noteq> [] \<and> consistentOn (set ?rs) compareResults"
  then have "sorted_wrt (\<lambda>a b. compareResults a b \<le> 0) (sortFn compareResults ?rs)"
    by (simp add: sortContract_sorted)
  then have "sorted_wrt (\<lambda>a b. (nearTie a b \<longrightarrow> distance a \<le> distance b)
                               \<and> (\<not> nearTie a b \<longrightarrow> score b < score a))
               (sortFn compareResults ?rs)"
    by (rule sorted_wrt_mono_rel [rotated]) (rule compareResults_le)
  then have "sorted_wrt (\<lambda>a b. (nearTie a b \<longrightarrow> distance a \<le> distance b)
                               \<and> (\<not> nearTie a b \<longrightarrow> score b < score a))
               (slice0 (sortFn compareResults ?rs) maxResults)"
    by (rule sorted_wrt_slice0)
  with h show "sorted_wrt (\<lambda>a b. (nearTie a b \<longrightarrow> distance a \<le> distance b)
                               \<and> (\<not> nearTie a b \<longrightarrow> score b < score a))
               (findMatches sortFn lc input candidates maxResults minScore)"
    by (simp add: findMatches_def)
qed

theorem findMatches_capped_and_ordered_witness:
  "(0::int) \<le> 2
   \<and> int (length (findMatches arraySort toLowerCase (str ''a'')
           [str ''axxxxxxxxxxxxx'', str ''xaxxxx'', str ''a''] 2 (double (3 / 10)))) \<le> 2
   \<and> findMatches arraySort toLowerCase (str ''a'')
        [str ''axxxxxxxxxxxxx'', str ''xaxxxx'', str ''a''] 2 (double (3 / 10))
      = [\<lparr>item = str ''a'', score = 1, distance = 0\<rparr>,
         \<lparr>item = str ''xaxxxx'', score = 6605279453476727 / 18014398509481984, distance = 5\<rparr>]
   \<and> sortContract (arraySort :: resultSort)
   \<and> trim (str ''a'') \<noteq> []
   \<and> consistentOn
        (set (collectResults toLowerCase (toLowerCase (trim (str ''a'')))
                [str ''axxxxxxxxxxxxx'', str ''xaxxxx'', str ''a''] (double (3 / 10))))
        compareResults
   \<and> sorted_wrt (\<lambda>a b. (nearTie a b \<longrightarrow> distance a \<le> distance b)
                         \<and> (\<not> nearTie a b \<longrightarrow> score b < score a))
        (findMatches arraySort toLowerCase (str ''a'')
           [str ''axxxxxxxxxxxxx'', str ''xaxxxx'', str ''a''] 5 (double (3 / 10)))
   \<and> findMatches arraySort toLowerCase (str ''a'')
        [str ''axxxxxxxxxxxxx'', str ''xaxxxx'', str ''a''] 5 (double (3 / 10))
      = [\<lparr>item = str ''a'', score = 1, distance = 0\<rparr>,
         \<lparr>item = str ''xaxxxx'', score = 6605279453476727 / 18014398509481984, distance = 5\<rparr>,
         \<lparr>item = str ''axxxxxxxxxxxxx'', score = 6691062303521879 / 18014398509481984, distance = 13\<rparr>]
   \<and> nearTie
        \<lparr>item = str ''xaxxxx'', score = 6605279453476727 / 18014398509481984, distance = 5\<rparr>
        \<lparr>item = str ''axxxxxxxxxxxxx'', score = 6691062303521879 / 18014398509481984, distance = 13\<rparr>
   \<and> \<not> nearTie
        \<lparr>item = str ''a'', score = 1, distance = 0\<rparr>
        \<lparr>item = str ''xaxxxx'', score = 6605279453476727 / 18014398509481984, distance = 5\<rparr>"
proof -
  have h1: "(0::int) \<le> 2" by simp
  have h2: "trim (str ''a'') \<noteq> []"
    by (simp add: trim_def str_def isWhiteSpace_def)
  have h3: "consistentOn
      (set (collectResults toLowerCase (toLowerCase (trim (str ''a'')))
              [str ''axxxxxxxxxxxxx'', str ''xaxxxx'', str ''a''] (double (3 / 10))))
      compareResults"
    unfolding near_tie_scores(1,2) three_scores by (rule three_consistent)
  have h4: "sortContract (arraySort :: resultSort)" by (rule arraySort_contract)
  have tie: "nearTie
        \<lparr>item = str ''xaxxxx'', score = 6605279453476727 / 18014398509481984, distance = 5\<rparr>
        \<lparr>item = str ''axxxxxxxxxxxxx'', score = 6691062303521879 / 18014398509481984, distance = 13\<rparr>"
    "\<not> nearTie
        \<lparr>item = str ''a'', score = 1, distance = 0\<rparr>
        \<lparr>item = str ''xaxxxx'', score = 6605279453476727 / 18014398509481984, distance = 5\<rparr>"
    by (simp_all add: nearTie_def double_eval)
  from findMatches_capped_and_ordered
         [of 2 arraySort toLowerCase "str ''a''"
             "[str ''axxxxxxxxxxxxx'', str ''xaxxxx'', str ''a'']" "double (3 / 10)"] h1
  have cap: "int (length (findMatches arraySort toLowerCase (str ''a'')
           [str ''axxxxxxxxxxxxx'', str ''xaxxxx'', str ''a''] 2 (double (3 / 10)))) \<le> 2"
    by blast
  from findMatches_capped_and_ordered
         [of 5 arraySort toLowerCase "str ''a''"
             "[str ''axxxxxxxxxxxxx'', str ''xaxxxx'', str ''a'']" "double (3 / 10)"] h4 h2 h3
  have ord: "sorted_wrt (\<lambda>a b. (nearTie a b \<longrightarrow> distance a \<le> distance b)
                         \<and> (\<not> nearTie a b \<longrightarrow> score b < score a))
        (findMatches arraySort toLowerCase (str ''a'')
           [str ''axxxxxxxxxxxxx'', str ''xaxxxx'', str ''a''] 5 (double (3 / 10)))"
    by blast
  from h1 cap three_matches(2) h4 h2 h3 ord three_matches(1) tie show ?thesis
    by (intro conjI)
qed

section \<open>Blank input\<close>

text \<open>
  C7, as the claim states it, fails: \<open>slice(0, maxResults)\<close> with a negative
  \<open>maxResults\<close> drops candidates from the end instead of returning none.  With
  \<open>maxResults = -1\<close> and two candidates, a blank input returns one candidate.  (The
  sort is not reached on a blank input.)
\<close>

theorem findMatches_blank_negative_counterexample:
  "findMatches arraySort toLowerCase (str ''  '') [str ''tap'', str ''swipe''] (- 1) (double (3 / 10))
     = [\<lparr>item = str ''tap'', score = 1 / 2, distance = 0\<rparr>]"
  by (simp add: findMatches_def trim_def str_def isWhiteSpace_def slice0_def defaultResult_def)

text \<open>
  C7, amended: for a maximum \<open>maxResults \<ge> 0\<close>, an empty or whitespace-only input
  returns the first \<open>maxResults\<close> candidates, in order, each with score 0.5 and distance
  0, whatever the threshold \<open>minScore\<close>, whatever the candidates and whatever the
  builtins \<open>sort\<close> and \<open>toLowerCase\<close> do.
\<close>

theorem findMatches_blank:
  assumes "trim input = []" and "0 \<le> maxResults"
  shows "findMatches sortFn lc input candidates maxResults minScore
           = map (\<lambda>c. \<lparr>item = c, score = 1 / 2, distance = 0\<rparr>) (take (nat maxResults) candidates)"
proof -
  have "slice0 candidates maxResults = take (nat maxResults) candidates"
    using assms(2) by (rule slice0_nonneg)
  with assms(1) show ?thesis
    by (simp add: findMatches_def defaultResult_def)
qed

theorem findMatches_blank_witness:
  "trim (str '' '') = [] \<and> (0::int) \<le> 1
   \<and> findMatches arraySort toLowerCase (str '' '') [str ''tap'', str ''swipe''] 1 (double (9 / 10))
       = [\<lparr>item = str ''tap'', score = 1 / 2, distance = 0\<rparr>]"
proof -
  have b: "trim (str '' '') = []"
    by (simp add: trim_def str_def isWhiteSpace_def)
  have m: "(0::int) \<le> 1" by simp
  show ?thesis
    using b m findMatches_blank [OF b m, of arraySort toLowerCase "[str ''tap'', str ''swipe'']"
        "double (9 / 10)"]
    by simp
qed

section \<open>Mapping a parser command to a command type\<close>

text \<open>
  The table has no duplicate key, so the association list is the object literal; and no
  key of the table occurs in a property name of \<open>Object.prototype\<close>.
\<close>

lemma partialMatch_find:
  "partialMatch entries s = map_option snd (find (\<lambda>e. includesStr s (fst e)) entries)"
  by (induction entries) auto

lemma prototype_keys_unmatched:
  "list_all (\<lambda>k. partialMatch commandMappings k = None) objectPrototypeKeys"
  by (simp add: commandMappings_def objectPrototypeKeys_def str_def)

lemma commandMappings_distinct: "distinct (map fst commandMappings)"
  by (simp add: commandMappings_def str_def)

text \<open>
  C2: when the lower-cased command is a key of the table, \<open>mapToCommandType\<close> returns
  that key's type, whatever keys occur in it as substrings; when it is not a key, the
  result is the type of the first entry, in insertion order, whose key is a substring of
  the lower-cased command.
\<close>

theorem mapToCommandType_exact_before_substring:
  "(map_of commandMappings (lc naturalCommand) = Some t
      \<longrightarrow> mapToCommandType lc naturalCommand = Inr (OwnProperty t))
   \<and> (map_of commandMappings (lc naturalCommand) = None
        \<and> find (\<lambda>e. includesStr (lc naturalCommand) (fst e)) commandMappings = Some e
      \<longrightarrow> mapToCommandType lc naturalCommand = Inr (OwnProperty (snd e)))"
proof (intro conjI impI)
  assume "map_of commandMappings (lc naturalCommand) = Some t"
  then show "mapToCommandType lc naturalCommand = Inr (OwnProperty t)"
    by (simp add: mapToCommandType_def getProperty_def)
next
  assume a: "map_of commandMappings (lc naturalCommand) = None
             \<and> find (\<lambda>e. includesStr (lc naturalCommand) (fst e)) commandMappings = Some e"
  then have pm: "partialMatch commandMappings (lc naturalCommand) = Some (snd e)"
    by (simp add: partialMatch_find)
  have "lc naturalCommand \<notin> set objectPrototypeKeys"
  proof
    assume "lc naturalCommand \<in> set objectPrototypeKeys"
    with prototype_keys_unmatched have "partialMatch commandMappings (lc naturalCommand) = None"
      by (simp add: list_all_iff)
    with pm show False by simp
  qed
  with a pm show "mapToCommandType lc naturalCommand = Inr (OwnProperty (snd e))"
    by (simp add: mapToCommandType_def getProperty_def)
qed

theorem mapToCommandType_exact_before_substring_witness:
  "mapToCommandType toLowerCase (str ''Listar Simuladores Arrancados'') = Inr (OwnProperty LIST_BOOTED_SIMULATORS)
   \<and> find (\<lambda>e. includesStr (toLowerCase (str ''Listar Simuladores Arrancados'')) (fst e)) commandMappings
       = Some (str ''listar simuladores'', LIST_AVAILABLE_SIMULATORS)
   \<and> mapToCommandType toLowerCase (str ''show logs del sistema'') = Inr (OwnProperty GET_SYSTEM_LOGS)"
proof -
  have x: "map_of commandMappings (toLowerCase (str ''Listar Simuladores Arrancados'')) = Some LIST_BOOTED_SIMULATORS"
    by (simp add: commandMappings_def toLowerCase_def lowerUnit_def str_def)
  have s: "find (\<lambda>e. includesStr (toLowerCase (str ''Listar Simuladores Arrancados'')) (fst e)) commandMappings
       = Some (str ''listar simuladores'', LIST_AVAILABLE_SIMULATORS)"
    by (simp add: commandMappings_def toLowerCase_def lowerUnit_def str_def)
  have n: "map_of commandMappings (toLowerCase (str ''show logs del sistema'')) = None"
    by (simp add: commandMappings_def toLowerCase_def lowerUnit_def str_def)
  have f: "find (\<lambda>e. includesStr (toLowerCase (str ''show logs del sistema'')) (fst e)) commandMappings
       = Some (str ''logs del sistema'', GET_SYSTEM_LOGS)"
    by (simp add: commandMappings_def toLowerCase_def lowerUnit_def str_def)
  from mapToCommandType_exact_before_substring
         [of toLowerCase "str ''Listar Simuladores Arrancados''" LIST_BOOTED_SIMULATORS] x
  have 1: "mapToCommandType toLowerCase (str ''Listar Simuladores Arrancados'') = Inr (OwnProperty LIST_BOOTED_SIMULATORS)"
    by blast
  from mapToCommandType_exact_before_substring
         [of toLowerCase "str ''show logs del sistema''" _ "(str ''logs del sistema'', GET_SYSTEM_LOGS)"] n f
  have 2: "mapToCommandType toLowerCase (str ''show logs del sistema'') = Inr (OwnProperty GET_SYSTEM_LOGS)"
    by simp
  from 1 s 2 show ?thesis by (intro conjI)
qed

text \<open>
  With no exact key, no substring key and no inherited property of that name, the result
  is a plain \<open>Error\<close> that carries its message only.
\<close>

lemma mapToCommandType_unmapped:
  assumes "map_of commandMappings (lc naturalCommand) = None"
    and "partialMatch commandMappings (lc naturalCommand) = None"
    and "lc naturalCommand \<notin> set objectPrototypeKeys"
  shows "mapToCommandType lc naturalCommand = Inl (Error (couldNotMap naturalCommand))"
  using assms by (simp add: mapToCommandType_def getProperty_def)

text \<open>
  C8, the code at a failing input.  \<open>constructor\<close> is no key of the table and no key is
  a substring of it, but \<open>this.commandMappings["constructor"]\<close> is the inherited
  \<open>Object.prototype.constructor\<close>, which is truthy: \<open>mapToCommandType\<close> returns it
  instead of throwing.
\<close>

theorem mapToCommandType_constructor:
  "map_of commandMappings (toLowerCase (str ''constructor'')) = None
   \<and> partialMatch commandMappings (toLowerCase (str ''constructor'')) = None
   \<and> mapToCommandType toLowerCase (str ''constructor'') = Inr (InheritedProperty (str ''constructor''))"
proof -
  have lc: "toLowerCase (str ''constructor'') = str ''constructor''"
    by (simp add: toLowerCase_def lowerUnit_def str_def)
  have n: "map_of commandMappings (str ''constructor'') = None"
    by (simp add: commandMappings_def str_def)
  have p: "partialMatch commandMappings (str ''constructor'') = None"
    by (simp add: commandMappings_def str_def)
  have k: "str ''constructor'' \<in> set objectPrototypeKeys"
    by (simp add: objectPrototypeKeys_def)
  show ?thesis
    using n p k by (simp add: mapToCommandType_def getProperty_def lc)
qed

section \<open>Parsing returns the first match\<close>

lemma tryPatterns_find:
  "tryPatterns d ps n orig text =
     (case find (matchesText n) ps of
        None \<Rightarrow> None
      | Some p \<Rightarrow> Some (matched d p (the (p n)) orig text))"
  by (induction ps) (auto simp: matchesText_def split: option.splits)

lemma find_map_Pair:
  "find (\<lambda>dp. matchesText n (snd dp)) (map (Pair d) ps) = map_option (Pair d) (find (matchesText n) ps)"
  by (induction ps) auto

lemma find_append:
  "find P (xs @ ys) = (case find P xs of None \<Rightarrow> find P ys | Some x \<Rightarrow> Some x)"
  by (induction xs) auto

lemma tryDefinitions_find:
  "tryDefinitions ds n orig text =
     (case find (\<lambda>dp. matchesText n (snd dp)) (concat (map (\<lambda>d. map (Pair d) (patterns d)) ds)) of
        None \<Rightarrow> None
      | Some dp \<Rightarrow> Some (matched (fst dp) (snd dp) (the (snd dp n)) orig text))"
proof (induction ds)
  case Nil
  show ?case by simp
next
  case (Cons d ds)
  show ?case
  proof (cases "find (matchesText n) (patterns d)")
    case None
    with Cons.IH show ?thesis
      by (simp add: tryPatterns_find find_append find_map_Pair)
  next
    case (Some p)
    then show ?thesis
      by (simp add: tryPatterns_find find_append find_map_Pair)
  qed
qed

lemma tryDefinitions_append:
  "tryDefinitions (ds @ es) n orig text =
     (case tryDefinitions ds n orig text of
        Some r \<Rightarrow> Some r
      | None \<Rightarrow> tryDefinitions es n orig text)"
  by (induction ds) (auto split: option.splits)

lemma tryHandlers_concat:
  "tryHandlers lc commandHandlers text
     = tryDefinitions (concat commandHandlers) (lc (trim text)) (trim text) text"
  by (induction commandHandlers)
     (auto simp: parseCommand_def tryDefinitions_append split: option.splits)

lemma tryHandlers_firstMatching:
  "tryHandlers lc commandHandlers text =
     (case firstMatching commandHandlers (lc (trim text)) of
        None \<Rightarrow> None
      | Some dp \<Rightarrow> Some (matched (fst dp) (snd dp) (the (snd dp (lc (trim text)))) (trim text) text))"
  by (simp add: tryHandlers_concat tryDefinitions_find firstMatching_def patternsInOrder_def)

text \<open>
  C3: \<open>parseInstruction\<close> returns on the first pattern, in the order catalogs,
  definitions, patterns, that matches the trimmed lower-cased text; its result has the
  command of the definition that owns the pattern, confidence 0.9 (the literal, a
  double) and the raw input as \<open>originalText\<close>; the parameters are extracted from the
  match of the same pattern on the trimmed text, or from the lower-case match when that
  fails.  With no match the enhanced error is raised.  The builtins \<open>toLowerCase\<close> and
  \<open>sort\<close> are arbitrary.
\<close>

theorem parseInstruction_first_match:
  "parseInstruction sortFn lc commandHandlers text =
     (case firstMatching commandHandlers (lc (trim text)) of
        None \<Rightarrow> Inl (generateEnhancedError sortFn lc commandHandlers text)
      | Some dp \<Rightarrow>
          Inr \<lparr>ParseResult.command = CommandDefinition.command (fst dp),
               parameters =
                 extractParameters (parameterExtractors (fst dp))
                   (case snd dp (trim text) of
                      Some originalMatch \<Rightarrow> originalMatch
                    | None \<Rightarrow> the (snd dp (lc (trim text))))
                   Map.empty,
               confidence = double (9 / 10),
               originalText = text\<rparr>)"
proof (cases "firstMatching commandHandlers (lc (trim text))")
  case None
  then have "tryHandlers lc commandHandlers text = None"
    by (simp add: tryHandlers_firstMatching)
  with None show ?thesis
    by (simp add: parseInstruction_def)
next
  case (Some dp)
  then have "tryHandlers lc commandHandlers text
               = Some (matched (fst dp) (snd dp) (the (snd dp (lc (trim text)))) (trim text) text)"
    by (simp add: tryHandlers_firstMatching)
  with Some show ?thesis
    by (simp add: parseInstruction_def matched_def split: option.splits)
qed

text \<open>
  On the small registry: the text \<open>  Press \<close> is trimmed and lower-cased, the second
  pattern of the first catalog matches it, and the result keeps the raw text.
\<close>

lemma parseInstruction_press:
  "parseInstruction sortFn toLowerCase sampleHandlers (str ''  Press '')
     = Inr \<lparr>ParseResult.command = str ''tap'', parameters = Map.empty,
            confidence = double (9 / 10), originalText = str ''  Press ''\<rparr>"
proof -
  have t: "trim (str ''  Press '') = str ''Press''"
    "toLowerCase (str ''Press'') = str ''press''"
    by (simp_all add: trim_def str_def isWhiteSpace_def toLowerCase_def lowerUnit_def)
  have p: "literalPattern (str ''tap'') (str ''press'') = None"
    "literalPattern (str ''press'') (str ''press'') = Some [str ''press'']"
    "literalPattern (str ''press'') (str ''Press'') = None"
    by (simp_all add: literalPattern_def str_def)
  show ?thesis
    by (simp add: parseInstruction_def parseCommand_def sampleHandlers_def tapDefinition_def
          matched_def t p)
qed

section \<open>The enhanced error\<close>
























section \<open>Parameter coercion\<close>

text \<open>
  \<open>convertParameters\<close> allocates one object, the copy, at the end of the heap and
  writes to no other; the content of the copy is \<open>coerce\<close> of the source.
\<close>

lemma convertParameters_heap:
  assumes "src < length h"
  shows "convertParameters toNumber lc commandType src h
           = (length h, h @ [coerce toNumber lc commandType (h ! src)])"
  using assms
  by (simp add: convertParameters_def spreadCopy_def coerce_def coercedNames_def assign_def
        nth_append)

lemma returned_convertParameters:
  "src < length h \<Longrightarrow>
     returned (convertParameters toNumber lc commandType src h)
       = coerce toNumber lc commandType (h ! src)"
  by (simp add: convertParameters_heap returned_def)

lemma numberProperty_lookup:
  "numberProperty toNumber name obj k =
     (if k = name then
        (case obj k of
           Some v \<Rightarrow> if v \<noteq> JUndefined then Some (JNumber (toNumber v)) else Some v
         | None \<Rightarrow> None)
      else obj k)"
  by (auto simp: numberProperty_def split: option.splits)

lemma fold_numberProperty_lookup:
  "distinct names \<Longrightarrow>
     fold (numberProperty toNumber) names obj k =
       (if k \<in> set names then
          (case obj k of
             Some v \<Rightarrow> if v \<noteq> JUndefined then Some (JNumber (toNumber v)) else Some v
           | None \<Rightarrow> None)
        else obj k)"
proof (induction names arbitrary: obj)
  case Nil
  show ?case by simp
next
  case (Cons n names)
  from Cons.prems have d: "distinct names" and n: "n \<notin> set names" by simp_all
  have unf: "fold (numberProperty toNumber) (n # names) obj k
               = fold (numberProperty toNumber) names (numberProperty toNumber n obj) k"
    by simp
  show ?case
  proof (cases "k \<in> set names")
    case True
    with n have kn: "k \<noteq> n" by blast
    then have same: "numberProperty toNumber n obj k = obj k"
      by (simp only: numberProperty_lookup if_False)
    have "fold (numberProperty toNumber) names (numberProperty toNumber n obj) k
            = (case numberProperty toNumber n obj k of
                 Some v \<Rightarrow> if v \<noteq> JUndefined then Some (JNumber (toNumber v)) else Some v
               | None \<Rightarrow> None)"
      using True by (simp only: Cons.IH [OF d] if_True)
    with unf same True show ?thesis by simp
  next
    case False
    have "fold (numberProperty toNumber) names (numberProperty toNumber n obj) k
            = numberProperty toNumber n obj k"
      using False by (simp only: Cons.IH [OF d] if_False)
    also have "\<dots> = (if k = n then
                          (case obj k of
                             Some v \<Rightarrow> if v \<noteq> JUndefined then Some (JNumber (toNumber v)) else Some v
                           | None \<Rightarrow> None)
                        else obj k)"
      by (rule numberProperty_lookup)
    finally show ?thesis using unf False by simp
  qed
qed

lemma distinct_coercedNames: "distinct (coercedNames commandType)"
  by (simp add: coercedNames_def str_def)

lemma booleanProperty_other: "k \<noteq> name \<Longrightarrow> booleanProperty lc name obj k = obj k"
  by (simp add: booleanProperty_def split: option.splits jsvalue.splits)

lemma coerce_other:
  assumes "k \<notin> set (coercedNames commandType)"
  shows "coerce toNumber lc commandType obj k = obj k"
proof (cases "commandType = CREATE_SIMULATOR_SESSION")
  case True
  with assms have "k \<noteq> str ''autoboot''" by (simp add: coercedNames_def)
  with True show ?thesis by (simp add: coerce_def booleanProperty_other)
next
  case False
  with assms show ?thesis
    by (simp add: coerce_def fold_numberProperty_lookup [OF distinct_coercedNames])
qed

lemma coerce_number:
  assumes "commandType = TAP \<or> commandType = SWIPE"
    and "k \<in> set (coercedNames commandType)"
    and "obj k = Some (JString s)"
  shows "coerce toNumber lc commandType obj k = Some (JNumber (toNumber (JString s)))"
proof -
  from assms(1) have "commandType \<noteq> CREATE_SIMULATOR_SESSION" by auto
  with assms(2,3) show ?thesis
    by (simp add: coerce_def fold_numberProperty_lookup [OF distinct_coercedNames])
qed

lemma coerce_autoboot:
  assumes "obj (str ''autoboot'') = Some (JString s)"
  shows "coerce toNumber lc CREATE_SIMULATOR_SESSION obj (str ''autoboot'')
           = Some (JBool (lc s = str ''true''))"
  using assms by (simp add: coerce_def booleanProperty_def)

lemma coerce_absent: "obj k = None \<Longrightarrow> coerce toNumber lc commandType obj k = None"
proof (cases "k \<in> set (coercedNames commandType)")
  case False
  assume "obj k = None"
  with False show ?thesis by (simp add: coerce_other)
next
  case True
  assume none: "obj k = None"
  show ?thesis
  proof (cases "commandType = CREATE_SIMULATOR_SESSION")
    case css: True
    with True have "k = str ''autoboot''" by (simp add: coercedNames_def)
    with css none show ?thesis by (simp add: coerce_def booleanProperty_def)
  next
    case False
    with True none show ?thesis
      by (simp add: coerce_def fold_numberProperty_lookup [OF distinct_coercedNames])
  qed
qed

text \<open>
  C5: in the object that \<open>convertParameters\<close> returns, a string under \<open>x\<close> or \<open>y\<close>
  for TAP, or under \<open>startX\<close>, \<open>startY\<close>, \<open>endX\<close>, \<open>endY\<close> or
  \<open>duration\<close> for SWIPE, is replaced by its \<open>Number\<close>; for CREATE_SIMULATOR_SESSION
  the string \<open>true\<close> under \<open>autoboot\<close> becomes the boolean true and the string
  \<open>false\<close> the boolean false; every parameter under another name is as in the source,
  and an absent parameter stays absent.  In particular \<open>{x: "10", y: "20"}\<close> for TAP
  becomes \<open>{x: 10, y: 20}\<close> and \<open>{autoboot: "false"}\<close> for CREATE_SIMULATOR_SESSION
  becomes \<open>{autoboot: false}\<close>.
\<close>

theorem convertParameters_coercion:
  assumes "src < length h"
  shows
    "((commandType = TAP \<or> commandType = SWIPE) \<and> k \<in> set (coercedNames commandType)
        \<and> (h ! src) k = Some (JString s)
      \<longrightarrow> returned (convertParameters toNumber lc commandType src h) k
            = Some (JNumber (toNumber (JString s))))
     \<and> (commandType = CREATE_SIMULATOR_SESSION
         \<and> (h ! src) (str ''autoboot'') = Some (JString (str ''true''))
         \<and> lc (str ''true'') = str ''true''
      \<longrightarrow> returned (convertParameters toNumber lc commandType src h) (str ''autoboot'')
            = Some (JBool True))
     \<and> (commandType = CREATE_SIMULATOR_SESSION
         \<and> (h ! src) (str ''autoboot'') = Some (JString (str ''false''))
         \<and> lc (str ''false'') \<noteq> str ''true''
      \<longrightarrow> returned (convertParameters toNumber lc commandType src h) (str ''autoboot'')
            = Some (JBool False))
     \<and> (k \<notin> set (coercedNames commandType)
      \<longrightarrow> returned (convertParameters toNumber lc commandType src h) k = (h ! src) k)
     \<and> ((h ! src) k = None
      \<longrightarrow> returned (convertParameters toNumber lc commandType src h) k = None)
     \<and> (commandType = TAP
         \<and> h ! src = [str ''x'' \<mapsto> JString (str ''10''), str ''y'' \<mapsto> JString (str ''20'')]
         \<and> toNumber (JString (str ''10'')) = Finite 10 \<and> toNumber (JString (str ''20'')) = Finite 20
      \<longrightarrow> returned (convertParameters toNumber lc commandType src h)
            = [str ''x'' \<mapsto> JNumber (Finite 10), str ''y'' \<mapsto> JNumber (Finite 20)])
     \<and> (commandType = CREATE_SIMULATOR_SESSION
         \<and> h ! src = [str ''autoboot'' \<mapsto> JString (str ''false'')]
         \<and> lc (str ''false'') \<noteq> str ''true''
      \<longrightarrow> returned (convertParameters toNumber lc commandType src h)
            = [str ''autoboot'' \<mapsto> JBool False])"
proof -
  note r = returned_convertParameters [OF assms]
  have c1: "returned (convertParameters toNumber lc commandType src h) k
              = Some (JNumber (toNumber (JString s)))"
    if "(commandType = TAP \<or> commandType = SWIPE) \<and> k \<in> set (coercedNames commandType)
        \<and> (h ! src) k = Some (JString s)"
    using that by (simp add: r coerce_number)
  have c2: "returned (convertParameters toNumber lc commandType src h) (str ''autoboot'')
              = Some (JBool True)"
    if "commandType = CREATE_SIMULATOR_SESSION
         \<and> (h ! src) (str ''autoboot'') = Some (JString (str ''true''))
         \<and> lc (str ''true'') = str ''true''"
    using that by (simp add: r coerce_autoboot)
  have c3: "returned (convertParameters toNumber lc commandType src h) (str ''autoboot'')
              = Some (JBool False)"
    if "commandType = CREATE_SIMULATOR_SESSION
         \<and> (h ! src) (str ''autoboot'') = Some (JString (str ''false''))
         \<and> lc (str ''false'') \<noteq> str ''true''"
    using that by (simp add: r coerce_autoboot)
  have c4: "returned (convertParameters toNumber lc commandType src h) k = (h ! src) k"
    if "k \<notin> set (coercedNames commandType)"
    using that by (simp add: r coerce_other)
  have c5: "returned (convertParameters toNumber lc commandType src h) k = None"
    if "(h ! src) k = None"
    using that by (simp add: r coerce_absent)
  have c6: "returned (convertParameters toNumber lc commandType src h)
            = [str ''x'' \<mapsto> JNumber (Finite 10), str ''y'' \<mapsto> JNumber (Finite 20)]"
    if "commandType = TAP
         \<and> h ! src = [str ''x'' \<mapsto> JString (str ''10''), str ''y'' \<mapsto> JString (str ''20'')]
         \<and> toNumber (JString (str ''10'')) = Finite 10 \<and> toNumber (JString (str ''20'')) = Finite 20"
  proof -
    have xy: "str ''x'' \<noteq> str ''y''" by (simp add: str_def)
    from that xy show ?thesis
      by (simp add: r coerce_def coercedNames_def numberProperty_def fun_upd_twist)
  qed
  have c7: "returned (convertParameters toNumber lc commandType src h)
            = [str ''autoboot'' \<mapsto> JBool False]"
    if "commandType = CREATE_SIMULATOR_SESSION
         \<and> h ! src = [str ''autoboot'' \<mapsto> JString (str ''false'')]
         \<and> lc (str ''false'') \<noteq> str ''true''"
    using that by (simp add: r coerce_def booleanProperty_def)
  from c1 c2 c3 c4 c5 c6 c7 show ?thesis by (intro conjI impI)
qed

theorem convertParameters_coercion_witness:
  "returned (convertParameters sampleNumber toLowerCase TAP 0
       [[str ''x'' \<mapsto> JString (str ''10''), str ''y'' \<mapsto> JString (str ''20'')]])
     = [str ''x'' \<mapsto> JNumber (Finite 10), str ''y'' \<mapsto> JNumber (Finite 20)]
   \<and> returned (convertParameters sampleNumber toLowerCase CREATE_SIMULATOR_SESSION 0
       [[str ''autoboot'' \<mapsto> JString (str ''false'')]])
     = [str ''autoboot'' \<mapsto> JBool False]
   \<and> returned (convertParameters sampleNumber toLowerCase CREATE_SIMULATOR_SESSION 0
       [[str ''autoboot'' \<mapsto> JString (str ''true'')]]) (str ''autoboot'')
     = Some (JBool True)
   \<and> returned (convertParameters sampleNumber toLowerCase SWIPE 0
       [[str ''duration'' \<mapsto> JString (str ''20'')]]) (str ''duration'')
     = Some (JNumber (Finite 20))
   \<and> returned (convertParameters sampleNumber toLowerCase LAUNCH_APP 0
       [[str ''x'' \<mapsto> JString (str ''10'')]]) (str ''x'')
     = Some (JString (str ''10''))
   \<and> returned (convertParameters sampleNumber toLowerCase TAP 0
       [[str ''x'' \<mapsto> JString (str ''10'')]]) (str ''y'')
     = None"
proof -
  let ?tap = "[str ''x'' \<mapsto> JString (str ''10''), str ''y'' \<mapsto> JString (str ''20'')]"
  let ?off = "[str ''autoboot'' \<mapsto> JString (str ''false'')]"
  let ?on = "[str ''autoboot'' \<mapsto> JString (str ''true'')]"
  let ?dur = "[str ''duration'' \<mapsto> JString (str ''20'')]"
  let ?x = "[str ''x'' \<mapsto> JString (str ''10'')]"
  have n: "sampleNumber (JString (str ''10'')) = Finite 10"
    "sampleNumber (JString (str ''20'')) = Finite 20"
    by (simp_all add: sampleNumber_def str_def)
  have l: "toLowerCase (str ''true'') = str ''true''" "toLowerCase (str ''false'') \<noteq> str ''true''"
    by (simp_all add: toLowerCase_def lowerUnit_def str_def)
  have 1: "returned (convertParameters sampleNumber toLowerCase TAP 0 [?tap])
             = [str ''x'' \<mapsto> JNumber (Finite 10), str ''y'' \<mapsto> JNumber (Finite 20)]"
    using convertParameters_coercion [of 0 "[?tap]" TAP _ _ sampleNumber toLowerCase] n
    by simp
  have 2: "returned (convertParameters sampleNumber toLowerCase CREATE_SIMULATOR_SESSION 0 [?off])
             = [str ''autoboot'' \<mapsto> JBool False]"
    using convertParameters_coercion [of 0 "[?off]" CREATE_SIMULATOR_SESSION _ _ sampleNumber toLowerCase] l
    by simp
  have 3: "returned (convertParameters sampleNumber toLowerCase CREATE_SIMULATOR_SESSION 0 [?on])
             (str ''autoboot'') = Some (JBool True)"
    using convertParameters_coercion [of 0 "[?on]" CREATE_SIMULATOR_SESSION _ _ sampleNumber toLowerCase] l
    by simp
  have 4: "returned (convertParameters sampleNumber toLowerCase SWIPE 0 [?dur]) (str ''duration'')
             = Some (JNumber (Finite 20))"
    using convertParameters_coercion
            [of 0 "[?dur]" SWIPE "str ''duration''" "str ''20''" sampleNumber toLowerCase] n
    by (simp add: coercedNames_def)
  have 5: "returned (convertParameters sampleNumber toLowerCase LAUNCH_APP 0 [?x]) (str ''x'')
             = Some (JString (str ''10''))"
    using convertParameters_coercion [of 0 "[?x]" LAUNCH_APP "str ''x''" _ sampleNumber toLowerCase]
    by (simp add: coercedNames_def)
  have xy: "str ''y'' \<noteq> str ''x''" by (simp add: str_def)
  have 6: "returned (convertParameters sampleNumber toLowerCase TAP 0 [?x]) (str ''y'') = None"
    using convertParameters_coercion [of 0 "[?x]" TAP "str ''y''" _ sampleNumber toLowerCase] xy
    by simp
  from 1 2 3 4 5 6 show ?thesis by (intro conjI)
qed

text \<open>
  C10: \<open>convertParameters\<close> returns a reference that was not allocated before, and so
  differs from the caller's, and every object of the heap it was given, the caller's
  parameters among them, is unchanged afterwards, whatever the command type.
\<close>

theorem convertParameters_frame:
  assumes "src < length h"
  shows "fst (convertParameters toNumber lc commandType src h) = length h
     \<and> fst (convertParameters toNumber lc commandType src h) \<noteq> src
     \<and> take (length h) (snd (convertParameters toNumber lc commandType src h)) = h
     \<and> snd (convertParameters toNumber lc commandType src h) ! src = h ! src"
proof -
  from assms have "convertParameters toNumber lc commandType src h
                     = (length h, h @ [coerce toNumber lc commandType (h ! src)])"
    by (rule convertParameters_heap)
  with assms show ?thesis
    by (simp add: nth_append)
qed

theorem convertParameters_frame_witness:
  "fst (convertParameters sampleNumber toLowerCase TAP 0
          [[str ''x'' \<mapsto> JString (str ''10''), str ''y'' \<mapsto> JString (str ''20'')]]) = 1
   \<and> snd (convertParameters sampleNumber toLowerCase TAP 0
          [[str ''x'' \<mapsto> JString (str ''10''), str ''y'' \<mapsto> JString (str ''20'')]]) ! 0
       = [str ''x'' \<mapsto> JString (str ''10''), str ''y'' \<mapsto> JString (str ''20'')]"
  using convertParameters_frame
          [of 0 "[[str ''x'' \<mapsto> JString (str ''10''), str ''y'' \<mapsto> JString (str ''20'')]]"
             sampleNumber toLowerCase TAP]
  by simp

end
